theory Spec2Isabelle
  imports Main "HOL-Library.Sublist"
begin

section \<open>Data model\<close>

text \<open>
  The command layer of the extension: the fetching and pushing menus with their
  actions (\<^verbatim>\<open>fetchingCommands.ts\<close>, \<^verbatim>\<open>pushingCommands.ts\<close>) and the commit
  orchestrator \<^verbatim>\<open>runCommitLikeCommand\<close> with \<^verbatim>\<open>commit\<close> and \<^verbatim>\<open>fixup\<close>; the
  folding range provider is left out. JavaScript values that may be \<^verbatim>\<open>undefined\<close>
  are options; a string is truthy when it is not empty.
\<close>

definition truthy :: "string option \<Rightarrow> bool" where
  "truthy s = (case s of None \<Rightarrow> False | Some v \<Rightarrow> v \<noteq> [])"

definition truthy_flag :: "bool option \<Rightarrow> bool" where
  "truthy_flag b = (case b of None \<Rightarrow> False | Some v \<Rightarrow> v)"

text \<open>String interpolation and \<^verbatim>\<open>+\<close> on a possibly undefined value.\<close>

definition js_string :: "string option \<Rightarrow> string" where
  "js_string s = (case s of None \<Rightarrow> ''undefined'' | Some v \<Rightarrow> v)"

text \<open>
  Modelled from the spec: the enum \<^verbatim>\<open>RefType\<close> of \<^verbatim>\<open>typings/git\<close> is imported by
  the sources but not among them. The spec names local branches, remote heads and
  tags, and ranks remote heads above local branches; the numeric values are those of
  the declaration order \<^verbatim>\<open>Head, RemoteHead, Tag\<close>.
\<close>

datatype RefType = Head | RemoteHead | Tag

fun RefType_value :: "RefType \<Rightarrow> int" where
  "RefType_value Head = 0"
| "RefType_value RemoteHead = 1"
| "RefType_value Tag = 2"

record Ref =
  ref_type :: RefType
  ref_name :: "string option"
  ref_commit :: "string option"
  ref_remote :: "string option"

record Remote =
  remote_name :: string
  remote_pushUrl :: "string option"

text \<open>The \<^verbatim>\<open>{ name, remote }\<close> objects held in the tracking fields of HEAD.\<close>

record UpstreamRef =
  up_name :: string
  up_remote :: string

record MagitBranch =
  head_name :: "string option"
  head_pushRemote :: "UpstreamRef option"
  head_upstream :: "UpstreamRef option"
  head_upstreamRemote :: "UpstreamRef option"

record MagitState =
  HEAD :: "MagitBranch option"

record MagitRepository =
  state_remotes :: "Remote list"
  state_refs :: "Ref list"
  magitState :: "MagitState option"

text \<open>\<^verbatim>\<open>repository.magitState?.HEAD\<close> and \<^verbatim>\<open>repository.magitState?.HEAD?.name\<close>.\<close>

definition repo_HEAD :: "MagitRepository \<Rightarrow> MagitBranch option" where
  "repo_HEAD repository =
     (case magitState repository of None \<Rightarrow> None | Some ms \<Rightarrow> HEAD ms)"

definition repo_HEAD_name :: "MagitRepository \<Rightarrow> string option" where
  "repo_HEAD_name repository =
     (case repo_HEAD repository of None \<Rightarrow> None | Some h \<Rightarrow> head_name h)"

text \<open>
  Modelled from the spec: the toggle \<open>enabled\<close> of a switch (spec, section 3). The
  type \<^verbatim>\<open>Switch\<close> is declared in \<^verbatim>\<open>menu/menu\<close>, outside the sources; the switch
  literals of the menus give the other three fields.
\<close>

record Switch =
  shortName :: string
  longName :: string
  sw_description :: string
  enabled :: bool

record MenuState =
  ms_repository :: MagitRepository
  ms_switches :: "Switch list"

record QuickItem =
  qi_label :: "string option"
  qi_description :: "string option"
  qi_meta :: "string option"

section \<open>Switch compiler\<close>

text \<open>
  Modelled from the spec: \<^verbatim>\<open>MenuUtil.switchesToArgs\<close> lives in \<^verbatim>\<open>menu/menu\<close>,
  which is not among the sources. The spec (4.1): input an ordered list of switches,
  output an ordered list of tokens, one per enabled switch, using each switch's long
  form; disabled switches contribute nothing. The switch literals of the menus leave
  the toggle unset, which is \<open>enabled = False\<close> here.
\<close>

fun switchesToArgs :: "Switch list \<Rightarrow> string list" where
  "switchesToArgs [] = []"
| "switchesToArgs (s # ss) =
     (if enabled s then longName s # switchesToArgs ss else switchesToArgs ss)"

section \<open>Collaborators\<close>

text \<open>
  The actions reach the outside through collaborators that are not part of these
  sources: the git process runner, the configuration store, the choosers and
  prompts, the preview and status surfaces of the editor. Each call is recorded as
  an event of a trace, in program order, and what the collaborator answers is read
  from a \<open>Host\<close> record. The process runner, the configuration store and the quick
  menu may fail (the process on a non-zero exit; \<^verbatim>\<open>pushSetUpstream\<close> guards its
  chooser with \<^verbatim>\<open>try\<close>), and so may every promise the commit orchestrator awaits:
  the preview task, \<^verbatim>\<open>window.showTextDocument\<close> and \<^verbatim>\<open>commands.executeCommand\<close>.
  An event records that the call was made, whether or not its promise resolves.
\<close>

datatype error = Error string

record GitResult =
  stdout :: string
  stderr :: string

datatype JsValue = Undefined | ProcessResult GitResult | CommandResult

text \<open>
  \<^verbatim>\<open>document.uri\<close> is compared with \<^verbatim>\<open>===\<close>, the identity of the Uri object: a
  number stands for that identity.
\<close>

record TextEditor =
  document_uri :: nat

datatype Event =
    GitRun "string list" "(string \<times> string) list option"
  | SetConfig string string
  | ShowQuickMenu "QuickItem list"
  | ShowInputBox string
  | ChooseTag string
  | ChooseCommit string
  | ExecuteCommand string
  | SetStatusBarMessage string "nat option"
  | DisposeInstructionStatus
  | ShowDiffSection
  | Delay nat
  | MagitStatusAndUpdate
  | AwaitStagedEditorTask
  | ShowTextDocument nat int
  | AssignPushRemote UpstreamRef
  | AssignUpstreamRemote UpstreamRef

text \<open>
  \<open>shortHash\<close> and \<open>remoteBranchFullNameToSegments\<close> (of \<^verbatim>\<open>utils/gitTextUtils\<close>),
  \<open>replaceLineSplitter\<close> (the \<^verbatim>\<open>replace(Constants.LineSplitterRegex, ' ')\<close>) and
  \<open>StatusMessageDisplayTimeout\<close> are code and constants of the repository outside
  these sources: they are parameters. When both configuration writes of a
  \<^verbatim>\<open>Promise.all\<close> fail, \<open>second_write_fails_first\<close> says whose failure it reports.
\<close>

record Host =
  gitRun_result :: "string list \<Rightarrow> (string \<times> string) list option \<Rightarrow> error + GitResult"
  setConfig_result :: "string \<Rightarrow> string \<Rightarrow> error option"
  second_write_fails_first :: bool
  showMenu_result :: "QuickItem list \<Rightarrow> error + string option"
  showInputBox_result :: "string \<Rightarrow> string option"
  chooseTag_result :: "string \<Rightarrow> string option"
  chooseCommit_result :: "string \<Rightarrow> string option"
  executeCommand_result :: "string \<Rightarrow> error + JsValue"
  shortHash :: "string option \<Rightarrow> string"
  remoteBranchFullNameToSegments :: "string \<Rightarrow> string option \<times> string option"
  replaceLineSplitter :: "string \<Rightarrow> string"
  StatusMessageDisplayTimeout :: nat
  platform :: string
  execPath :: string
  stagedEditorTask_result :: "error + TextEditor"
  showTextDocument_result :: "nat \<Rightarrow> int \<Rightarrow> error option"
  visibleTextEditors :: "TextEditor list"
  oppositeActiveViewColumn :: "nat \<Rightarrow> int"

text \<open>
  What running an action gives: the trace of collaborator calls and in-memory
  assignments, the repository object afterwards, and how the promise settles
  (\<open>Inl\<close> rejected, \<open>Inr\<close> resolved).
\<close>

type_synonym Run = "Event list \<times> MagitRepository \<times> (error + JsValue)"

definition gitRun ::
  "Host \<Rightarrow> MagitRepository \<Rightarrow> string list \<Rightarrow> (string \<times> string) list option \<Rightarrow> Run" where
  "gitRun host repository args env =
     ([GitRun args env], repository,
      (case gitRun_result host args env of
         Inl e \<Rightarrow> Inl e
       | Inr r \<Rightarrow> Inr (ProcessResult r)))"

text \<open>An action that falls off its end: nothing called, \<^verbatim>\<open>undefined\<close> returned.\<close>

definition no_op :: "Event list \<Rightarrow> MagitRepository \<Rightarrow> Run" where
  "no_op tr repository = (tr, repository, Inr Undefined)"

text \<open>A run continued from a trace: the events \<open>tr\<close> come first.\<close>

definition after :: "Event list \<Rightarrow> Run \<Rightarrow> Run" where
  "after tr r = (case r of (tr', repository, res) \<Rightarrow> (tr @ tr', repository, res))"

section \<open>Menus\<close>

datatype Action =
    FetchFromPushRemote | FetchFromUpstream | FetchFromElsewhere | FetchAll
  | FetchAnotherBranch
  | PushToPushRemote | PushSetPushRemote | PushUpstream | PushSetUpstream
  | PushElsewhere | PushTag | PushAllTags
  | Commit | Amend | Extend | Reword | Fixup

record MenuItem =
  label :: string
  description :: string
  action :: Action

record Menu =
  title :: string
  commands :: "MenuItem list"

text \<open>\<^verbatim>\<open>repository.magitState?.HEAD?.pushRemote\<close> and its two siblings.\<close>

definition repo_pushRemote :: "MagitRepository \<Rightarrow> UpstreamRef option" where
  "repo_pushRemote repository =
     (case repo_HEAD repository of None \<Rightarrow> None | Some h \<Rightarrow> head_pushRemote h)"

definition repo_upstream :: "MagitRepository \<Rightarrow> UpstreamRef option" where
  "repo_upstream repository =
     (case repo_HEAD repository of None \<Rightarrow> None | Some h \<Rightarrow> head_upstream h)"

definition repo_upstreamRemote :: "MagitRepository \<Rightarrow> UpstreamRef option" where
  "repo_upstreamRemote repository =
     (case repo_HEAD repository of None \<Rightarrow> None | Some h \<Rightarrow> head_upstreamRemote h)"

text \<open>
  \<^verbatim>\<open>fetching\<close> and \<^verbatim>\<open>pushing\<close> end in \<^verbatim>\<open>MenuUtil.showMenu(menu, state)\<close>: the
  model gives the menu and the menu state handed over.
\<close>

definition fetching :: "MagitRepository \<Rightarrow> Menu \<times> MenuState" where
  "fetching repository =
     (let fetchingMenuItems =
            (case repo_pushRemote repository of
               Some pushRemote \<Rightarrow>
                 [\<lparr>label = ''p'', description = up_remote pushRemote,
                   action = FetchFromPushRemote\<rparr>]
             | None \<Rightarrow> [])
          @ (case repo_upstream repository of
               Some upstream \<Rightarrow>
                 [\<lparr>label = ''u'', description = up_remote upstream,
                   action = FetchFromUpstream\<rparr>]
             | None \<Rightarrow> [])
          @ [\<lparr>label = ''e'', description = ''elsewhere'', action = FetchFromElsewhere\<rparr>,
             \<lparr>label = ''a'', description = ''all remotes'', action = FetchAll\<rparr>,
             \<lparr>label = ''o'', description = ''another branch'',
               action = FetchAnotherBranch\<rparr>];
         switches =
           [\<lparr>shortName = ''-p'', longName = ''--prune'',
             sw_description = ''Prune deleted branches'', enabled = False\<rparr>]
      in (\<lparr>title = ''Fetching'', commands = fetchingMenuItems\<rparr>,
          \<lparr>ms_repository = repository, ms_switches = switches\<rparr>))"

definition generatePushingMenu :: "MagitRepository \<Rightarrow> Menu" where
  "generatePushingMenu repository =
     (let pushingMenuItems =
            [case repo_pushRemote repository of
               Some pushRemote \<Rightarrow>
                 \<lparr>label = ''p'',
                  description = up_remote pushRemote @ ''/'' @ up_name pushRemote,
                  action = PushToPushRemote\<rparr>
             | None \<Rightarrow>
                 \<lparr>label = ''p'', description = ''pushRemote, after setting that'',
                  action = PushSetPushRemote\<rparr>,
             case repo_upstream repository of
               Some upstream \<Rightarrow>
                 \<lparr>label = ''u'',
                  description = up_remote upstream @ ''/'' @ up_name upstream,
                  action = PushUpstream\<rparr>
             | None \<Rightarrow>
                 \<lparr>label = ''u'',
                  description = CHR ''@'' # ''{upstream}, after setting that'',
                  action = PushSetUpstream\<rparr>,
             \<lparr>label = ''e'', description = ''elsewhere'', action = PushElsewhere\<rparr>,
             \<lparr>label = ''T'', description = ''a tag'', action = PushTag\<rparr>,
             \<lparr>label = ''t'', description = ''all tags'', action = PushAllTags\<rparr>]
      in \<lparr>title = ''Pushing'', commands = pushingMenuItems\<rparr>)"

definition pushing :: "MagitRepository \<Rightarrow> Menu \<times> MenuState" where
  "pushing repository =
     (let switches =
           [\<lparr>shortName = ''-f'', longName = ''--force-with-lease'',
             sw_description = ''Force with lease'', enabled = False\<rparr>,
            \<lparr>shortName = ''-F'', longName = ''--force'',
             sw_description = ''Force'', enabled = False\<rparr>,
            \<lparr>shortName = ''-h'', longName = ''--no-verify'',
             sw_description = ''Disable hooks'', enabled = False\<rparr>,
            \<lparr>shortName = ''-d'', longName = ''--dry-run'',
             sw_description = ''Dry run'', enabled = False\<rparr>]
      in (generatePushingMenu repository,
          \<lparr>ms_repository = repository, ms_switches = switches\<rparr>))"

definition commitMenu :: Menu where
  "commitMenu =
     \<lparr>title = ''Committing'',
      commands =
        [\<lparr>label = ''c'', description = ''Commit'', action = Commit\<rparr>,
         \<lparr>label = ''a'', description = ''Amend'', action = Amend\<rparr>,
         \<lparr>label = ''e'', description = ''Extend'', action = Extend\<rparr>,
         \<lparr>label = ''w'', description = ''Reword'', action = Reword\<rparr>,
         \<lparr>label = ''f'', description = ''Fixup'', action = Fixup\<rparr>]\<rparr>"

definition magitCommit :: "MagitRepository \<Rightarrow> Menu \<times> MenuState" where
  "magitCommit repository =
     (let switches =
           [\<lparr>shortName = ''-a'', longName = ''--all'',
             sw_description = ''Stage all modified and deleted files'', enabled = False\<rparr>,
            \<lparr>shortName = ''-e'', longName = ''--allow-empty'',
             sw_description = ''Allow empty commit'', enabled = False\<rparr>]
      in (commitMenu, \<lparr>ms_repository = repository, ms_switches = switches\<rparr>))"

section \<open>Fetch actions\<close>

definition remote_items :: "MagitRepository \<Rightarrow> QuickItem list" where
  "remote_items repository =
     map (\<lambda>r. \<lparr>qi_label = Some (remote_name r), qi_description = remote_pushUrl r,
                qi_meta = Some (remote_name r)\<rparr>)
       (state_remotes repository)"

definition fetchFromPushRemote :: "Host \<Rightarrow> MenuState \<Rightarrow> Run" where
  "fetchFromPushRemote host st =
     (let repository = ms_repository st in
      case repo_pushRemote repository of
        Some pushRemote \<Rightarrow>
          gitRun host repository
            (''fetch'' # switchesToArgs (ms_switches st) @ [up_remote pushRemote]) None
      | None \<Rightarrow> no_op [] repository)"

definition fetchFromUpstream :: "Host \<Rightarrow> MenuState \<Rightarrow> Run" where
  "fetchFromUpstream host st =
     (let repository = ms_repository st in
      case repo_upstreamRemote repository of
        Some upstreamRemote \<Rightarrow>
          gitRun host repository
            (''fetch'' # switchesToArgs (ms_switches st) @ [up_remote upstreamRemote]) None
      | None \<Rightarrow> no_op [] repository)"

definition fetchFromElsewhere :: "Host \<Rightarrow> MenuState \<Rightarrow> Run" where
  "fetchFromElsewhere host st =
     (let repository = ms_repository st;
          remotes = remote_items repository
      in case showMenu_result host remotes of
           Inl e \<Rightarrow> ([ShowQuickMenu remotes], repository, Inl e)
         | Inr chosenRemote \<Rightarrow>
             (case chosenRemote of
                Some chosen \<Rightarrow>
                  if chosen \<noteq> [] then
                    after [ShowQuickMenu remotes]
                      (gitRun host repository
                         (''fetch'' # switchesToArgs (ms_switches st) @ [chosen]) None)
                  else no_op [ShowQuickMenu remotes] repository
              | None \<Rightarrow> no_op [ShowQuickMenu remotes] repository))"

definition fetchAll :: "Host \<Rightarrow> MenuState \<Rightarrow> Run" where
  "fetchAll host st =
     gitRun host (ms_repository st)
       (''fetch'' # switchesToArgs (ms_switches st) @ [''--all'']) None"

definition fetchAnotherBranch :: "Host \<Rightarrow> MenuState \<Rightarrow> Run" where
  "fetchAnotherBranch host st =
     (let repository = ms_repository st;
          remote = showInputBox_result host ''Fetch from remote or url''
      in if truthy remote then
           (let branch = showInputBox_result host ''Fetch branch'' in
            if truthy branch then
              after [ShowInputBox ''Fetch from remote or url'', ShowInputBox ''Fetch branch'']
                (gitRun host repository
                   (''fetch'' # switchesToArgs (ms_switches st)
                      @ [js_string remote, ''refs/heads/'' @ js_string branch]) None)
            else
              no_op [ShowInputBox ''Fetch from remote or url'', ShowInputBox ''Fetch branch'']
                repository)
         else no_op [ShowInputBox ''Fetch from remote or url''] repository)"

section \<open>Push actions\<close>

definition pushToPushRemote :: "Host \<Rightarrow> MenuState \<Rightarrow> Run" where
  "pushToPushRemote host st =
     (let repository = ms_repository st;
          remote = map_option up_remote (repo_pushRemote repository);
          ref = repo_HEAD_name repository
      in if truthy remote \<and> truthy ref then
           gitRun host repository
             (''push'' # switchesToArgs (ms_switches st) @ [js_string remote, js_string ref])
             None
         else no_op [] repository)"

text \<open>
  \<^verbatim>\<open>repository.magitState!.HEAD!.pushRemote = v\<close>: the assertions \<^verbatim>\<open>!\<close> check nothing,
  so the assignment throws a TypeError (\<open>None\<close>) when the state or HEAD is undefined.
\<close>

definition assign_pushRemote :: "UpstreamRef \<Rightarrow> MagitRepository \<Rightarrow> MagitRepository option" where
  "assign_pushRemote v repository =
     (case magitState repository of
        None \<Rightarrow> None
      | Some ms \<Rightarrow>
          (case HEAD ms of
             None \<Rightarrow> None
           | Some h \<Rightarrow>
               Some (repository\<lparr>magitState :=
                 Some (ms\<lparr>HEAD := Some (h\<lparr>head_pushRemote := Some v\<rparr>)\<rparr>)\<rparr>)))"

definition assign_upstreamRemote :: "UpstreamRef \<Rightarrow> MagitRepository \<Rightarrow> MagitRepository option" where
  "assign_upstreamRemote v repository =
     (case magitState repository of
        None \<Rightarrow> None
      | Some ms \<Rightarrow>
          (case HEAD ms of
             None \<Rightarrow> None
           | Some h \<Rightarrow>
               Some (repository\<lparr>magitState :=
                 Some (ms\<lparr>HEAD := Some (h\<lparr>head_upstreamRemote := Some v\<rparr>)\<rparr>)\<rparr>)))"

definition TypeError :: error where
  "TypeError = Error ''TypeError''"

definition pushSetPushRemote :: "Host \<Rightarrow> MenuState \<Rightarrow> Run" where
  "pushSetPushRemote host st =
     (let repository = ms_repository st;
          remotes = remote_items repository
      in case showMenu_result host remotes of
           Inl e \<Rightarrow> ([ShowQuickMenu remotes], repository, Inl e)
         | Inr chosenRemote \<Rightarrow>
             (let ref = repo_HEAD_name repository in
              if truthy chosenRemote \<and> truthy ref then
                (let key = ''branch.'' @ js_string ref @ ''.pushRemote'';
                     val = js_string chosenRemote
                 in case setConfig_result host key val of
                      Some e \<Rightarrow> ([ShowQuickMenu remotes, SetConfig key val], repository, Inl e)
                    | None \<Rightarrow>
                        (let v = \<lparr>up_name = js_string ref, up_remote = val\<rparr> in
                         case assign_pushRemote v repository of
                           None \<Rightarrow>
                             ([ShowQuickMenu remotes, SetConfig key val], repository,
                              Inl TypeError)
                         | Some repository' \<Rightarrow>
                             after [ShowQuickMenu remotes, SetConfig key val, AssignPushRemote v]
                               (pushToPushRemote host (st\<lparr>ms_repository := repository'\<rparr>))))
              else no_op [ShowQuickMenu remotes] repository))"

definition pushUpstream :: "Host \<Rightarrow> MenuState \<Rightarrow> Run" where
  "pushUpstream host st =
     (let repository = ms_repository st;
          remote = map_option up_remote (repo_upstreamRemote repository);
          ref = repo_HEAD_name repository
      in if truthy remote \<and> truthy ref then
           gitRun host repository
             (''push'' # switchesToArgs (ms_switches st) @ [js_string remote, js_string ref])
             None
         else no_op [] repository)"

text \<open>
  The candidate list of \<^verbatim>\<open>pushSetUpstream\<close>, in its two steps: \<open>choices\<close> (the refs,
  with a synthesized remote head in front when there is a remote and no ref has the
  name \<^verbatim>\<open>remotes[0].name/HEAD.name\<close>), then \<open>refs\<close> (\<open>candidate_items\<close> of the
  choices: tags and the current branch filtered out, the rest sorted by descending
  type and mapped to quick items). \<^verbatim>\<open>Array.sort\<close> is stable, as the insertion sort
  \<open>sort_key\<close> is.
\<close>

definition upstream_candidate_name :: "Remote \<Rightarrow> MagitRepository \<Rightarrow> string" where
  "upstream_candidate_name r repository =
     remote_name r @ ''/'' @ js_string (repo_HEAD_name repository)"

definition synthesized_candidate :: "Remote \<Rightarrow> MagitRepository \<Rightarrow> Ref" where
  "synthesized_candidate r repository =
     \<lparr>ref_type = RemoteHead,
      ref_name = Some (upstream_candidate_name r repository),
      ref_commit = None,
      ref_remote = Some (remote_name r)\<rparr>"

definition pushSetUpstream_choices :: "MagitRepository \<Rightarrow> Ref list" where
  "pushSetUpstream_choices repository =
     (let choices = state_refs repository in
      case state_remotes repository of
        [] \<Rightarrow> choices
      | r # _ \<Rightarrow>
          if find (\<lambda>ref. ref_name ref = Some (upstream_candidate_name r repository)) choices
               = None
          then synthesized_candidate r repository # choices
          else choices)"

definition ref_item :: "Host \<Rightarrow> Ref \<Rightarrow> QuickItem" where
  "ref_item host r =
     \<lparr>qi_label = ref_name r, qi_description = Some (shortHash host (ref_commit r)),
      qi_meta = ref_name r\<rparr>"

definition candidate_items :: "Host \<Rightarrow> MagitRepository \<Rightarrow> Ref list \<Rightarrow> QuickItem list" where
  "candidate_items host repository choices =
     map (ref_item host)
       (sort_key (\<lambda>ref. - RefType_value (ref_type ref))
          (filter (\<lambda>ref. ref_type ref \<noteq> Tag \<and> ref_name ref \<noteq> repo_HEAD_name repository)
             choices))"

definition pushSetUpstream_refs :: "Host \<Rightarrow> MagitRepository \<Rightarrow> QuickItem list" where
  "pushSetUpstream_refs host repository =
     candidate_items host repository (pushSetUpstream_choices repository)"

text \<open>
  \<^verbatim>\<open>Promise.all\<close> of two writes, both already started: it resolves when both have,
  and rejects with the failure that comes first.
\<close>

definition promise_all :: "bool \<Rightarrow> error option \<Rightarrow> error option \<Rightarrow> error option" where
  "promise_all second_first a b =
     (case a of
        None \<Rightarrow> b
      | Some e1 \<Rightarrow> (case b of None \<Rightarrow> Some e1
                   | Some e2 \<Rightarrow> Some (if second_first then e2 else e1)))"

definition pushSetUpstream :: "Host \<Rightarrow> MenuState \<Rightarrow> Run" where
  "pushSetUpstream host st =
     (let repository = ms_repository st;
          refs = pushSetUpstream_refs host repository;
          chosenRemote = (case showMenu_result host refs of Inl e \<Rightarrow> None | Inr c \<Rightarrow> c);
          ref = repo_HEAD_name repository
      in if truthy chosenRemote \<and> truthy ref then
           (case remoteBranchFullNameToSegments host (js_string chosenRemote) of
              (remote, name) \<Rightarrow>
                if truthy remote \<and> truthy name then
                  (let key1 = ''branch.'' @ js_string ref @ ''.merge'';
                       val1 = ''refs/heads/'' @ js_string name;
                       key2 = ''branch.'' @ js_string ref @ ''.remote'';
                       val2 = js_string remote;
                       writes = [ShowQuickMenu refs, SetConfig key1 val1, SetConfig key2 val2]
                   in case promise_all (second_write_fails_first host)
                             (setConfig_result host key1 val1) (setConfig_result host key2 val2) of
                        Some e \<Rightarrow> (writes, repository, Inl e)
                      | None \<Rightarrow>
                          (let v = \<lparr>up_name = js_string name, up_remote = js_string remote\<rparr> in
                           case assign_upstreamRemote v repository of
                             None \<Rightarrow> (writes, repository, Inl TypeError)
                           | Some repository' \<Rightarrow>
                               after (writes @ [AssignUpstreamRemote v])
                                 (pushUpstream host (st\<lparr>ms_repository := repository'\<rparr>))))
                else no_op [ShowQuickMenu refs] repository)
         else no_op [ShowQuickMenu refs] repository)"

definition pushElsewhere :: "Host \<Rightarrow> MenuState \<Rightarrow> Run" where
  "pushElsewhere host st =
     ([ExecuteCommand ''git.pushTo''], ms_repository st, executeCommand_result host ''git.pushTo'')"

text \<open>\<^verbatim>\<open>HEAD?.upstreamRemote?.remote ?? HEAD?.pushRemote?.remote\<close>.\<close>

definition tag_remote :: "MagitRepository \<Rightarrow> string option" where
  "tag_remote repository =
     (case repo_upstreamRemote repository of
        Some u \<Rightarrow> Some (up_remote u)
      | None \<Rightarrow> map_option up_remote (repo_pushRemote repository))"

definition pushTag :: "Host \<Rightarrow> MenuState \<Rightarrow> Run" where
  "pushTag host st =
     (let repository = ms_repository st;
          remote = tag_remote repository;
          tag = chooseTag_result host ''Push tag''
      in if truthy remote \<and> truthy tag then
           after [ChooseTag ''Push tag'']
             (gitRun host repository
                (''push'' # switchesToArgs (ms_switches st) @ [js_string remote, js_string tag])
                None)
         else no_op [ChooseTag ''Push tag''] repository)"

definition pushAllTags :: "Host \<Rightarrow> MenuState \<Rightarrow> Run" where
  "pushAllTags host st =
     (let repository = ms_repository st;
          remote = tag_remote repository
      in if truthy remote then
           gitRun host repository
             (''push'' # switchesToArgs (ms_switches st) @ [js_string remote, ''--tags''])
             None
         else no_op [] repository)"

section \<open>Commit orchestrator\<close>

record CommitEditorOptions =
  opt_updatePostCommitTask :: "bool option"
  opt_showStagedChanges :: "bool option"
  opt_editor :: "string option"
  opt_propagateErrors :: "bool option"

text \<open>
  The default of the third parameter, \<^verbatim>\<open>= { showStagedChanges: true }\<close>: it stands in
  when the caller passes no options object (\<open>None\<close>), and only then.
\<close>

definition default_options :: CommitEditorOptions where
  "default_options =
     \<lparr>opt_updatePostCommitTask = None, opt_showStagedChanges = Some True,
      opt_editor = None, opt_propagateErrors = None\<rparr>"

text \<open>
  \<^verbatim>\<open>execPath.split(/(?<=\.app)/)[0]\<close>: the text up to and including the first
  \<^verbatim>\<open>.app\<close>, the whole text when there is none.
\<close>

fun first_segment :: "string \<Rightarrow> string" where
  "first_segment [] = []"
| "first_segment (c # cs) =
     (if take 4 (c # cs) = ''.app'' then ''.app'' else c # first_segment cs)"

definition ViewColumn_One :: int where
  "ViewColumn_One = 1"

text \<open>
  The loop of the \<^verbatim>\<open>finally\<close> block over \<^verbatim>\<open>window.visibleTextEditors\<close>; \<open>n\<close> counts
  the calls of \<^verbatim>\<open>MagitUtils.oppositeActiveViewColumn\<close> made so far. The result is the
  trace and the rejection, if any, of an awaited call, which ends the loop: the
  showing and the closing are awaited, the navigation is not.
\<close>

fun closeStagedEditor ::
  "Host \<Rightarrow> TextEditor \<Rightarrow> TextEditor list \<Rightarrow> nat \<Rightarrow> Event list \<times> error option" where
  "closeStagedEditor host editor [] n = ([], None)"
| "closeStagedEditor host editor (visibleEditor # rest) n =
     (if document_uri visibleEditor = document_uri editor then
        (let stagedEditorViewColumn = oppositeActiveViewColumn host n in
         case showTextDocument_result host (document_uri editor) stagedEditorViewColumn of
           Some e \<Rightarrow>
             ([ShowTextDocument (document_uri editor) stagedEditorViewColumn], Some e)
         | None \<Rightarrow>
             (case executeCommand_result host ''workbench.action.closeActiveEditor'' of
                Inl e \<Rightarrow>
                  ([ShowTextDocument (document_uri editor) stagedEditorViewColumn,
                    ExecuteCommand ''workbench.action.closeActiveEditor''], Some e)
              | Inr closed \<Rightarrow>
                  (case closeStagedEditor host editor rest (Suc n) of
                     (tr, failure) \<Rightarrow>
                       ([ShowTextDocument (document_uri editor) stagedEditorViewColumn,
                         ExecuteCommand ''workbench.action.closeActiveEditor'',
                         ExecuteCommand (''workbench.action.navigate''
                           @ (if stagedEditorViewColumn = ViewColumn_One
                              then ''Right'' else ''Left''))] @ tr,
                        failure))))
      else closeStagedEditor host editor rest n)"

text \<open>
  The \<^verbatim>\<open>finally\<close> block: the await of \<^verbatim>\<open>stagedEditorTask\<close> (which is
  \<^verbatim>\<open>undefined\<close>, and awaited as such, when no preview was started), then the loop.
  A rejection of the task or inside the loop is thrown out of the block.
\<close>

definition finally_block :: "Host \<Rightarrow> bool \<Rightarrow> Event list \<times> error option" where
  "finally_block host showStagedChanges =
     (if showStagedChanges then
        (case stagedEditorTask_result host of
           Inl e \<Rightarrow> ([AwaitStagedEditorTask], Some e)
         | Inr stagedEditor \<Rightarrow>
             (case closeStagedEditor host stagedEditor (visibleTextEditors host) 0 of
                (tr, failure) \<Rightarrow> (AwaitStagedEditorTask # tr, failure)))
      else ([AwaitStagedEditorTask], None))"

definition commit_env :: "Host \<Rightarrow> CommitEditorOptions \<Rightarrow> (string \<times> string) list" where
  "commit_env host opts =
     (let codePath =
            (if platform host = ''darwin''
             then first_segment (execPath host) @ ''/Contents/Resources/app/bin/code''
             else ''code'')
      in [(case opt_editor opts of None \<Rightarrow> ''GIT_EDITOR'' | Some e \<Rightarrow> e,
           CHR 0x22 # codePath @ CHR 0x22 # '' --wait'')])"

text \<open>
  \<^verbatim>\<open>runCommitLikeCommand\<close>: the \<^verbatim>\<open>try\<close> block up to the await of the process, then
  either its last two statements or the \<^verbatim>\<open>catch\<close> block (which may leave the error
  pending), then the \<^verbatim>\<open>finally\<close> block, whose own rejection replaces a normal return
  and a pending error alike. The function returns nothing: \<open>Inr ()\<close> is the normal
  return, \<open>Inl e\<close> the error thrown to the caller.
\<close>

definition given_options :: "CommitEditorOptions option \<Rightarrow> CommitEditorOptions" where
  "given_options options = (case options of None \<Rightarrow> default_options | Some given \<Rightarrow> given)"

definition runCommitLikeCommand ::
  "Host \<Rightarrow> MagitRepository \<Rightarrow> string list \<Rightarrow> CommitEditorOptions option
     \<Rightarrow> Event list \<times> (error + unit)" where
  "runCommitLikeCommand host repository args options =
     (let opts = given_options options;
          showStagedChanges = truthy_flag (opt_showStagedChanges opts);
          instruction =
            [SetStatusBarMessage ''Type C-c C-c to finish, or C-c C-k to cancel'' None];
          preview = (if showStagedChanges then [ShowDiffSection] else []);
          env = commit_env host opts;
          started = [GitRun args (Some env)];
          refresh =
            (if truthy_flag (opt_updatePostCommitTask opts)
             then [Delay 100, MagitStatusAndUpdate] else []);
          settled =
            (case gitRun_result host args (Some env) of
               Inr commitSuccessMessage \<Rightarrow>
                 [DisposeInstructionStatus,
                  SetStatusBarMessage
                    (''Git finished: '' @ replaceLineSplitter host (stdout commitSuccessMessage))
                    (Some (StatusMessageDisplayTimeout host))]
             | Inl e \<Rightarrow>
                 [DisposeInstructionStatus,
                  SetStatusBarMessage ''Commit canceled.''
                    (Some (StatusMessageDisplayTimeout host))]);
          pending =
            (case gitRun_result host args (Some env) of
               Inr commitSuccessMessage \<Rightarrow> None
             | Inl e \<Rightarrow> if truthy_flag (opt_propagateErrors opts) then Some e else None);
          cleanup = finally_block host showStagedChanges
      in (instruction @ preview @ started @ refresh @ settled @ fst cleanup,
          case snd cleanup of
            Some e \<Rightarrow> Inl e
          | None \<Rightarrow> (case pending of None \<Rightarrow> Inr () | Some e \<Rightarrow> Inl e)))"

definition commit ::
  "Host \<Rightarrow> MenuState \<Rightarrow> string list \<Rightarrow> Event list \<times> (error + unit)" where
  "commit host st commitArgs =
     runCommitLikeCommand host (ms_repository st)
       (''commit'' # switchesToArgs (ms_switches st) @ commitArgs) None"

definition fixup :: "Host \<Rightarrow> MenuState \<Rightarrow> Run" where
  "fixup host st =
     (let repository = ms_repository st;
          sha = chooseCommit_result host ''Fixup commit''
      in if truthy sha then
           after [ChooseCommit ''Fixup commit'']
             (gitRun host repository
                (''commit'' # switchesToArgs (ms_switches st) @ [''--fixup'', js_string sha])
                None)
         else ([ChooseCommit ''Fixup commit''], repository,
               Inl (Error ''No commit chosen to fixup'')))"

section \<open>Invoking a menu item\<close>

definition commit_run :: "MagitRepository \<Rightarrow> Event list \<times> (error + unit) \<Rightarrow> Run" where
  "commit_run repository r =
     (case r of (tr, res) \<Rightarrow>
        (tr, repository, (case res of Inl e \<Rightarrow> Inl e | Inr u \<Rightarrow> Inr Undefined)))"

text \<open>\<^verbatim>\<open>item.action(menuState)\<close>: each menu item holds one of these functions.\<close>

fun invoke :: "Host \<Rightarrow> Action \<Rightarrow> MenuState \<Rightarrow> Run" where
  "invoke host FetchFromPushRemote st = fetchFromPushRemote host st"
| "invoke host FetchFromUpstream st = fetchFromUpstream host st"
| "invoke host FetchFromElsewhere st = fetchFromElsewhere host st"
| "invoke host FetchAll st = fetchAll host st"
| "invoke host FetchAnotherBranch st = fetchAnotherBranch host st"
| "invoke host PushToPushRemote st = pushToPushRemote host st"
| "invoke host PushSetPushRemote st = pushSetPushRemote host st"
| "invoke host PushUpstream st = pushUpstream host st"
| "invoke host PushSetUpstream st = pushSetUpstream host st"
| "invoke host PushElsewhere st = pushElsewhere host st"
| "invoke host PushTag st = pushTag host st"
| "invoke host PushAllTags st = pushAllTags host st"
| "invoke host Commit st = commit_run (ms_repository st) (commit host st [])"
| "invoke host Amend st = commit_run (ms_repository st) (commit host st [''--amend''])"
| "invoke host Extend st =
     commit_run (ms_repository st) (commit host st [''--amend'', ''--no-edit''])"
| "invoke host Reword st =
     commit_run (ms_repository st) (commit host st [''--amend'', ''--only''])"
| "invoke host Fixup st = fixup host st"

section \<open>Example scenarios\<close>

text \<open>
  Concrete hosts and repositories on which the theorems below are instantiated: the
  process answers \<open>git\<close>, the quick menu \<open>choice\<close>, the configuration store
  \<open>store\<close>, and \<open>visible\<close> are the editors on screen.
\<close>

definition scenario_host ::
  "(error + GitResult) \<Rightarrow> (error + string option) \<Rightarrow> error option \<Rightarrow> TextEditor list \<Rightarrow> Host" where
  "scenario_host git choice store visible =
     \<lparr>gitRun_result = (\<lambda>args env. git),
      setConfig_result = (\<lambda>key val. store),
      second_write_fails_first = False,
      showMenu_result = (\<lambda>items. choice),
      showInputBox_result = (\<lambda>prompt. None),
      chooseTag_result = (\<lambda>prompt. None),
      chooseCommit_result = (\<lambda>prompt. None),
      executeCommand_result = (\<lambda>command. Inr CommandResult),
      shortHash = (\<lambda>commit. take 7 (case commit of None \<Rightarrow> [] | Some h \<Rightarrow> h)),
      remoteBranchFullNameToSegments =
        (\<lambda>full. (Some (takeWhile (\<lambda>c. c \<noteq> CHR ''/'') full),
                  Some (drop 1 (dropWhile (\<lambda>c. c \<noteq> CHR ''/'') full)))),
      replaceLineSplitter = (\<lambda>out. out),
      StatusMessageDisplayTimeout = 10000,
      platform = ''linux'',
      execPath = ''/usr/share/code/code'',
      stagedEditorTask_result = Inr \<lparr>document_uri = 1\<rparr>,
      showTextDocument_result = (\<lambda>uri column. None),
      visibleTextEditors = visible,
      oppositeActiveViewColumn = (\<lambda>n. 2)\<rparr>"

definition scenario_branch ::
  "string \<Rightarrow> UpstreamRef option \<Rightarrow> UpstreamRef option \<Rightarrow> UpstreamRef option \<Rightarrow> MagitBranch" where
  "scenario_branch name pushRemote upstream upstreamRemote =
     \<lparr>head_name = Some name, head_pushRemote = pushRemote, head_upstream = upstream,
      head_upstreamRemote = upstreamRemote\<rparr>"

definition origin :: Remote where
  "origin = \<lparr>remote_name = ''origin'', remote_pushUrl = None\<rparr>"

definition scenario_repository :: "Ref list \<Rightarrow> MagitBranch \<Rightarrow> MagitRepository" where
  "scenario_repository refs branch =
     \<lparr>state_remotes = [origin],
      state_refs = refs,
      magitState = Some \<lparr>HEAD = Some branch\<rparr>\<rparr>"

text \<open>On branch \<open>feature\<close>, nothing tracked, with the given refs.\<close>

definition feature_repository :: "Ref list \<Rightarrow> MagitRepository" where
  "feature_repository refs = scenario_repository refs (scenario_branch ''feature'' None None None)"

text \<open>On branch \<open>main\<close> with \<open>HEAD.upstream\<close> set and nothing else.\<close>

definition upstream_only_repository :: MagitRepository where
  "upstream_only_repository =
     scenario_repository []
       (scenario_branch ''main'' None (Some \<lparr>up_name = ''main'', up_remote = ''origin''\<rparr>) None)"

text \<open>On branch \<open>main\<close>, nothing tracked, no refs.\<close>

definition main_repository :: MagitRepository where
  "main_repository = scenario_repository [] (scenario_branch ''main'' None None None)"

definition scenario_ref :: "RefType \<Rightarrow> string \<Rightarrow> Ref" where
  "scenario_ref t name =
     \<lparr>ref_type = t, ref_name = Some name, ref_commit = Some ''0123456789abcdef'',
      ref_remote = None\<rparr>"

text \<open>The pushing menu state after the user has toggled \<^verbatim>\<open>-F\<close>.\<close>

definition forced_push_state :: "MagitRepository \<Rightarrow> MenuState" where
  "forced_push_state repository =
     \<lparr>ms_repository = repository,
      ms_switches =
        [\<lparr>shortName = ''-f'', longName = ''--force-with-lease'',
          sw_description = ''Force with lease'', enabled = False\<rparr>,
         \<lparr>shortName = ''-F'', longName = ''--force'',
          sw_description = ''Force'', enabled = True\<rparr>,
         \<lparr>shortName = ''-h'', longName = ''--no-verify'',
          sw_description = ''Disable hooks'', enabled = False\<rparr>,
         \<lparr>shortName = ''-d'', longName = ''--dry-run'',
          sw_description = ''Dry run'', enabled = False\<rparr>]\<rparr>"

definition git_ok :: "error + GitResult" where
  "git_ok = Inr \<lparr>stdout = ''done'', stderr = []\<rparr>"

definition git_failed :: "error + GitResult" where
  "git_failed = Inl (Error ''exit 1'')"

text \<open>A host where everything succeeds and the quick menu answers \<open>choice\<close>.\<close>

definition choosing_host :: "string \<Rightarrow> Host" where
  "choosing_host choice = scenario_host git_ok (Inr (Some choice)) None []"

text \<open>A host whose configuration store rejects every write.\<close>

definition locked_store_host :: "string \<Rightarrow> Host" where
  "locked_store_host choice =
     scenario_host git_ok (Inr (Some choice)) (Some (Error ''locked'')) []"

text \<open>A host whose git process fails, with the given editors on screen.\<close>

definition canceling_host :: "TextEditor list \<Rightarrow> Host" where
  "canceling_host visible = scenario_host git_failed (Inr None) None visible"

definition propagating :: CommitEditorOptions where
  "propagating =
     \<lparr>opt_updatePostCommitTask = None, opt_showStagedChanges = None,
      opt_editor = None, opt_propagateErrors = Some True\<rparr>"

text \<open>A host where everything succeeds, the quick menu is dismissed, nothing on screen.\<close>

definition quiet_host :: Host where
  "quiet_host = scenario_host git_ok (Inr None) None []"

text \<open>
  A host whose git process fails and whose \<^verbatim>\<open>closeActiveEditor\<close> command rejects, and
  one whose preview task rejects.
\<close>

definition stuck_close_host :: "TextEditor list \<Rightarrow> Host" where
  "stuck_close_host visible =
     (canceling_host visible)
       \<lparr>executeCommand_result := (\<lambda>command. Inl (Error ''close failed''))\<rparr>"

definition no_preview_host :: Host where
  "no_preview_host =
     (canceling_host [])\<lparr>stagedEditorTask_result := Inl (Error ''no preview'')\<rparr>"

text \<open>Options asking for the preview and for the propagation of errors.\<close>

definition previewing_and_propagating :: CommitEditorOptions where
  "previewing_and_propagating =
     \<lparr>opt_updatePostCommitTask = None, opt_showStagedChanges = Some True,
      opt_editor = None, opt_propagateErrors = Some True\<rparr>"

text \<open>A host whose quick menu rejects.\<close>

definition rejecting_host :: Host where
  "rejecting_host = scenario_host git_ok (Inl (Error ''closed'')) None []"

section \<open>Unfolding the scenarios\<close>

lemmas scenario_defs = scenario_host_def scenario_branch_def scenario_repository_def
  feature_repository_def upstream_only_repository_def main_repository_def origin_def
  scenario_ref_def git_ok_def git_failed_def quiet_host_def choosing_host_def
  forced_push_state_def locked_store_host_def canceling_host_def propagating_def
  rejecting_host_def stuck_close_host_def no_preview_host_def previewing_and_propagating_def

lemmas repo_defs = repo_HEAD_name_def repo_HEAD_def repo_pushRemote_def repo_upstreamRemote_def
  repo_upstream_def

lemmas action_defs = pushSetPushRemote_def pushToPushRemote_def pushSetUpstream_def
  pushUpstream_def fetchFromUpstream_def gitRun_def no_op_def after_def remote_items_def
  truthy_def js_string_def assign_pushRemote_def assign_upstreamRemote_def promise_all_def Let_def

lemmas candidate_defs = pushSetUpstream_refs_def candidate_items_def pushSetUpstream_choices_def
  synthesized_candidate_def upstream_candidate_name_def ref_item_def

lemmas commit_defs = runCommitLikeCommand_def finally_block_def given_options_def
  default_options_def truthy_flag_def commit_env_def ViewColumn_One_def

section \<open>Properties of the switch compiler\<close>

lemma switchesToArgs_filter: "switchesToArgs ss = map longName (filter enabled ss)"
  by (induction ss) simp_all

lemma switchesToArgs_subseq: "subseq (switchesToArgs ss) (map longName ss)"
  by (simp add: switchesToArgs_filter subseq_map)

text \<open>
  Claim C7. The compiled argument vector holds exactly the long forms of the enabled
  switches, one token each, in declaration order (it is the long-form image of the
  enabled sub-list, hence a subsequence of all long forms); its length is the number
  of enabled switches; a list with every switch disabled compiles to the empty vector.
\<close>

theorem switchesToArgs_compiles:
  "switchesToArgs ss = map longName (filter enabled ss)
   \<and> subseq (switchesToArgs ss) (map longName ss)
   \<and> length (switchesToArgs ss) = length (filter enabled ss)
   \<and> ((\<forall>s \<in> set ss. \<not> enabled s) \<longrightarrow> switchesToArgs ss = [])"
proof -
  have eq: "switchesToArgs ss = map longName (filter enabled ss)"
    by (rule switchesToArgs_filter)
  have len: "length (switchesToArgs ss) = length (filter enabled ss)"
    by (simp add: eq)
  have none: "(\<forall>s \<in> set ss. \<not> enabled s) \<longrightarrow> switchesToArgs ss = []"
    by (simp add: eq filter_empty_conv)
  from eq switchesToArgs_subseq len none show ?thesis by blast
qed

theorem switchesToArgs_compiles_witness:
  "\<not> enabled \<lparr>shortName = ''-p'', longName = ''--prune'',
                 sw_description = ''Prune deleted branches'', enabled = False\<rparr>
   \<and> switchesToArgs (ms_switches (snd (fetching main_repository))) = []
   \<and> switchesToArgs (ms_switches (forced_push_state main_repository)) = [''--force'']
   \<and> length (filter enabled (ms_switches (forced_push_state main_repository))) = 1"
  using switchesToArgs_compiles [of "ms_switches (snd (fetching main_repository))"]
    switchesToArgs_compiles [of "ms_switches (forced_push_state main_repository)"]
  by (simp add: fetching_def forced_push_state_def)

section \<open>The fetching and pushing menus\<close>

lemma fetching_labels:
  "map label (commands (fst (fetching repository)))
     = (case repo_pushRemote repository of Some p \<Rightarrow> [''p''] | None \<Rightarrow> [])
       @ (case repo_upstream repository of Some u \<Rightarrow> [''u''] | None \<Rightarrow> [])
       @ [''e'', ''a'', ''o'']"
  by (simp add: fetching_def Let_def split: option.splits)

text \<open>
  Claim C8. When HEAD tracks an upstream and no push-remote is configured, the
  fetching menu offers exactly the labels \<open>u\<close>, \<open>e\<close>, \<open>a\<close>, \<open>o\<close>, in this order,
  bound to fetch-from-upstream, fetch-elsewhere, fetch-all-remotes and
  fetch-another-branch; and in every repository state \<open>p\<close> is offered if and only if a
  push-remote is configured.
\<close>

theorem fetching_menu_offers:
  "(repo_upstream repository \<noteq> None \<and> repo_pushRemote repository = None \<longrightarrow>
      map label (commands (fst (fetching repository))) = [''u'', ''e'', ''a'', ''o'']
      \<and> map action (commands (fst (fetching repository)))
          = [FetchFromUpstream, FetchFromElsewhere, FetchAll, FetchAnotherBranch])
   \<and> (''p'' \<in> set (map label (commands (fst (fetching repository))))
        \<longleftrightarrow> repo_pushRemote repository \<noteq> None)"
proof -
  have a: "repo_upstream repository \<noteq> None \<and> repo_pushRemote repository = None \<longrightarrow>
      map label (commands (fst (fetching repository))) = [''u'', ''e'', ''a'', ''o'']
      \<and> map action (commands (fst (fetching repository)))
          = [FetchFromUpstream, FetchFromElsewhere, FetchAll, FetchAnotherBranch]"
    by (auto simp: fetching_def Let_def)
  have b: "''p'' \<in> set (map label (commands (fst (fetching repository))))
        \<longleftrightarrow> repo_pushRemote repository \<noteq> None"
    unfolding fetching_labels
    by (cases "repo_pushRemote repository"; cases "repo_upstream repository") simp_all
  from a b show ?thesis by blast
qed

theorem fetching_menu_offers_witness:
  "repo_upstream upstream_only_repository \<noteq> None
   \<and> repo_pushRemote upstream_only_repository = None
   \<and> map label (commands (fst (fetching upstream_only_repository)))
       = [''u'', ''e'', ''a'', ''o'']
   \<and> map action (commands (fst (fetching upstream_only_repository)))
       = [FetchFromUpstream, FetchFromElsewhere, FetchAll, FetchAnotherBranch]
   \<and> ''p'' \<notin> set (map label (commands (fst (fetching upstream_only_repository))))"
  using fetching_menu_offers [of upstream_only_repository]
  by (simp add: scenario_defs repo_defs)

text \<open>
  Claim C10. When \<open>HEAD.upstream\<close> is set and \<open>HEAD.upstreamRemote\<close> is not, the
  fetching menu and the pushing menu both offer the item \<open>u\<close>, bound to
  \<open>fetchFromUpstream\<close> and to \<open>pushUpstream\<close>; invoking either, with whatever switches,
  returns \<^verbatim>\<open>undefined\<close> with an empty trace (no configuration write, no process) and
  the repository as it was: the menus test \<open>upstream\<close>, the actions test
  \<open>upstreamRemote\<close>.
\<close>

theorem upstream_item_gated_on_other_field:
  "repo_upstream repository = Some u \<and> repo_upstreamRemote repository = None
     \<and> ms_repository st = repository \<longrightarrow>
   \<lparr>label = ''u'', description = up_remote u, action = FetchFromUpstream\<rparr>
       \<in> set (commands (fst (fetching repository)))
   \<and> \<lparr>label = ''u'', description = up_remote u @ ''/'' @ up_name u, action = PushUpstream\<rparr>
       \<in> set (commands (fst (pushing repository)))
   \<and> invoke host FetchFromUpstream st = ([], repository, Inr Undefined)
   \<and> invoke host PushUpstream st = ([], repository, Inr Undefined)"
  by (auto simp: fetching_def pushing_def generatePushingMenu_def Let_def
        fetchFromUpstream_def pushUpstream_def no_op_def truthy_def)

theorem upstream_item_gated_on_other_field_witness:
  "repo_upstream upstream_only_repository = Some \<lparr>up_name = ''main'', up_remote = ''origin''\<rparr>
   \<and> repo_upstreamRemote upstream_only_repository = None
   \<and> \<lparr>label = ''u'', description = ''origin'', action = FetchFromUpstream\<rparr>
       \<in> set (commands (fst (fetching upstream_only_repository)))
   \<and> \<lparr>label = ''u'', description = ''origin/main'', action = PushUpstream\<rparr>
       \<in> set (commands (fst (pushing upstream_only_repository)))
   \<and> invoke quiet_host FetchFromUpstream (snd (fetching upstream_only_repository))
       = ([], upstream_only_repository, Inr Undefined)
   \<and> invoke quiet_host PushUpstream (snd (pushing upstream_only_repository))
       = ([], upstream_only_repository, Inr Undefined)"
  using upstream_item_gated_on_other_field
      [of upstream_only_repository "\<lparr>up_name = ''main'', up_remote = ''origin''\<rparr>"
          "snd (fetching upstream_only_repository)" quiet_host]
    upstream_item_gated_on_other_field
      [of upstream_only_repository "\<lparr>up_name = ''main'', up_remote = ''origin''\<rparr>"
          "snd (pushing upstream_only_repository)" quiet_host]
  by (simp add: scenario_defs repo_defs fetching_def pushing_def)

section \<open>The upstream candidates\<close>

lemma insort_key_least: "\<forall>y \<in> set ys. f x \<le> f y \<Longrightarrow> insort_key f x ys = x # ys"
  by (cases ys) simp_all

lemma sort_key_Cons_least:
  "\<forall>y \<in> set ys. f x \<le> f y \<Longrightarrow> sort_key f (x # ys) = x # sort_key f ys"
  by (simp add: sort_key_simps insort_key_least)

text \<open>The name \<^verbatim>\<open>remote/branch\<close> is longer than the branch name, so never equal to it.\<close>

lemma candidate_name_not_HEAD:
  "Some (upstream_candidate_name r repository) \<noteq> repo_HEAD_name repository"
proof (cases "repo_HEAD_name repository")
  case None
  then show ?thesis by simp
next
  case (Some h)
  have "length (upstream_candidate_name r repository) \<noteq> length h"
    by (simp add: upstream_candidate_name_def Some js_string_def)
  then show ?thesis using Some by auto
qed

lemma RefType_value_bound: "t \<noteq> Tag \<Longrightarrow> RefType_value t \<le> 1"
  by (cases t) simp_all

text \<open>
  The synthesized candidate passes the filter and, being a remote head in front of
  the list, stays in front under the stable sort.
\<close>

lemma candidate_items_synthesized:
  "candidate_items host repository (synthesized_candidate r repository # refs)
     = ref_item host (synthesized_candidate r repository) # candidate_items host repository refs"
proof -
  let ?f = "\<lambda>ref. - RefType_value (ref_type ref)"
  let ?P = "\<lambda>ref. ref_type ref \<noteq> Tag \<and> ref_name ref \<noteq> repo_HEAD_name repository"
  let ?s = "synthesized_candidate r repository"
  have keep: "?P ?s"
    using candidate_name_not_HEAD [of r repository]
    by (simp add: synthesized_candidate_def)
  have least: "\<forall>y \<in> set (filter ?P refs). ?f ?s \<le> ?f y"
    by (auto simp: synthesized_candidate_def dest: RefType_value_bound)
  have "sort_key ?f (filter ?P (?s # refs)) = ?s # sort_key ?f (filter ?P refs)"
    using keep sort_key_Cons_least [OF least] by simp
  then show ?thesis by (simp add: candidate_items_def)
qed

lemma choices_unnamed:
  "state_remotes repository = r # rs \<Longrightarrow>
   \<forall>ref \<in> set (state_refs repository). ref_name ref \<noteq> Some (upstream_candidate_name r repository) \<Longrightarrow>
   pushSetUpstream_choices repository = synthesized_candidate r repository # state_refs repository"
  by (simp add: pushSetUpstream_choices_def find_None_iff)

lemma choices_named:
  "state_remotes repository = r # rs \<Longrightarrow>
   \<exists>ref \<in> set (state_refs repository). ref_name ref = Some (upstream_candidate_name r repository) \<Longrightarrow>
   pushSetUpstream_choices repository = state_refs repository"
  by (auto simp: pushSetUpstream_choices_def find_None_iff Let_def)

lemma candidate_items_count:
  "length (filter (\<lambda>q. qi_label q = Some (upstream_candidate_name r repository))
             (candidate_items host repository refs))
   = length (filter (\<lambda>ref. ref_name ref = Some (upstream_candidate_name r repository)
                             \<and> ref_type ref \<noteq> Tag) refs)"
proof -
  let ?X = "Some (upstream_candidate_name r repository)"
  have "filter (\<lambda>q. qi_label q = ?X) (candidate_items host repository refs)
        = map (ref_item host) (sort_key (\<lambda>ref. - RefType_value (ref_type ref))
            (filter (\<lambda>ref. ref_name ref = ?X)
               (filter (\<lambda>ref. ref_type ref \<noteq> Tag \<and> ref_name ref \<noteq> repo_HEAD_name repository) refs)))"
    by (simp add: candidate_items_def filter_map o_def ref_item_def filter_sort)
  moreover have "filter (\<lambda>ref. ref_name ref = ?X)
               (filter (\<lambda>ref. ref_type ref \<noteq> Tag \<and> ref_name ref \<noteq> repo_HEAD_name repository) refs)
        = filter (\<lambda>ref. ref_name ref = ?X \<and> ref_type ref \<noteq> Tag) refs"
    using candidate_name_not_HEAD [of r repository]
    by (auto intro!: filter_cong)
  ultimately show ?thesis by simp
qed

text \<open>
  Claim C6. With a first remote \<open>r\<close> (for the claim: \<open>origin\<close>, on branch \<open>feature\<close>),
  the candidate \<^verbatim>\<open>r/branch\<close> is synthesized if and only if no ref has that name. When
  it is synthesized, it is the first element of the list shown, in front of what the
  refs alone give, and the only entry of that name. When some ref has the name, the
  list shown is what the refs alone give: as many entries of that name as there are
  refs of that name that are not tags, and no synthesized one.
\<close>

theorem pushSetUpstream_synthesized_first:
  "state_remotes repository = r # rs \<longrightarrow>
     (pushSetUpstream_choices repository
          = synthesized_candidate r repository # state_refs repository
        \<longleftrightarrow> (\<forall>ref \<in> set (state_refs repository).
               ref_name ref \<noteq> Some (upstream_candidate_name r repository)))
   \<and> ((\<forall>ref \<in> set (state_refs repository).
          ref_name ref \<noteq> Some (upstream_candidate_name r repository)) \<longrightarrow>
        pushSetUpstream_refs host repository
          = ref_item host (synthesized_candidate r repository)
              # candidate_items host repository (state_refs repository)
        \<and> length (filter (\<lambda>q. qi_label q = Some (upstream_candidate_name r repository))
                     (pushSetUpstream_refs host repository)) = 1)
   \<and> ((\<exists>ref \<in> set (state_refs repository).
          ref_name ref = Some (upstream_candidate_name r repository)) \<longrightarrow>
        pushSetUpstream_choices repository = state_refs repository
        \<and> pushSetUpstream_refs host repository
          = candidate_items host repository (state_refs repository)
        \<and> length (filter (\<lambda>q. qi_label q = Some (upstream_candidate_name r repository))
                     (pushSetUpstream_refs host repository))
          = length (filter (\<lambda>ref. ref_name ref = Some (upstream_candidate_name r repository)
                                    \<and> ref_type ref \<noteq> Tag) (state_refs repository)))"
proof
  assume rem: "state_remotes repository = r # rs"
  let ?none = "\<forall>ref \<in> set (state_refs repository).
          ref_name ref \<noteq> Some (upstream_candidate_name r repository)"
  let ?some = "\<exists>ref \<in> set (state_refs repository).
          ref_name ref = Some (upstream_candidate_name r repository)"
  have unnamed: "pushSetUpstream_refs host repository
          = ref_item host (synthesized_candidate r repository)
              # candidate_items host repository (state_refs repository)
        \<and> length (filter (\<lambda>q. qi_label q = Some (upstream_candidate_name r repository))
                     (pushSetUpstream_refs host repository)) = 1" if none: ?none
  proof -
    have ch: "pushSetUpstream_choices repository
          = synthesized_candidate r repository # state_refs repository"
      using rem none by (rule choices_unnamed)
    have out: "pushSetUpstream_refs host repository
          = ref_item host (synthesized_candidate r repository)
              # candidate_items host repository (state_refs repository)"
      by (simp add: pushSetUpstream_refs_def ch candidate_items_synthesized)
    have "filter (\<lambda>ref. ref_name ref = Some (upstream_candidate_name r repository)
                                    \<and> ref_type ref \<noteq> Tag) (state_refs repository) = []"
      using none by (simp add: filter_empty_conv)
    then have "length (filter (\<lambda>q. qi_label q = Some (upstream_candidate_name r repository))
                     (pushSetUpstream_refs host repository)) = 1"
      by (simp add: out candidate_items_count ref_item_def synthesized_candidate_def)
    with out show ?thesis by blast
  qed
  have named: "pushSetUpstream_choices repository = state_refs repository
        \<and> pushSetUpstream_refs host repository
          = candidate_items host repository (state_refs repository)
        \<and> length (filter (\<lambda>q. qi_label q = Some (upstream_candidate_name r repository))
                     (pushSetUpstream_refs host repository))
          = length (filter (\<lambda>ref. ref_name ref = Some (upstream_candidate_name r repository)
                                    \<and> ref_type ref \<noteq> Tag) (state_refs repository))" if some: ?some
  proof -
    have ch: "pushSetUpstream_choices repository = state_refs repository"
      using rem some by (rule choices_named)
    have out: "pushSetUpstream_refs host repository
          = candidate_items host repository (state_refs repository)"
      by (simp add: pushSetUpstream_refs_def ch)
    show ?thesis by (simp add: ch out candidate_items_count)
  qed
  have iff: "pushSetUpstream_choices repository
          = synthesized_candidate r repository # state_refs repository \<longleftrightarrow> ?none"
  proof (cases ?none)
    case True
    with choices_unnamed [OF rem] show ?thesis by blast
  next
    case False
    then have ?some by blast
    from choices_named [OF rem this] False show ?thesis by simp
  qed
  from iff unnamed named
  show "(pushSetUpstream_choices repository
          = synthesized_candidate r repository # state_refs repository \<longleftrightarrow> ?none)
   \<and> (?none \<longrightarrow>
        pushSetUpstream_refs host repository
          = ref_item host (synthesized_candidate r repository)
              # candidate_items host repository (state_refs repository)
        \<and> length (filter (\<lambda>q. qi_label q = Some (upstream_candidate_name r repository))
                     (pushSetUpstream_refs host repository)) = 1)
   \<and> (?some \<longrightarrow>
        pushSetUpstream_choices repository = state_refs repository
        \<and> pushSetUpstream_refs host repository
          = candidate_items host repository (state_refs repository)
        \<and> length (filter (\<lambda>q. qi_label q = Some (upstream_candidate_name r repository))
                     (pushSetUpstream_refs host repository))
          = length (filter (\<lambda>ref. ref_name ref = Some (upstream_candidate_name r repository)
                                    \<and> ref_type ref \<noteq> Tag) (state_refs repository)))"
    by blast
qed

theorem pushSetUpstream_synthesized_first_witness:
  "state_remotes (feature_repository [scenario_ref Head ''feature'', scenario_ref Head ''dev''])
     = origin # []
   \<and> upstream_candidate_name origin
        (feature_repository [scenario_ref Head ''feature'', scenario_ref Head ''dev''])
     = ''origin/feature''
   \<and> pushSetUpstream_refs quiet_host
        (feature_repository [scenario_ref Head ''feature'', scenario_ref Head ''dev''])
     = [\<lparr>qi_label = Some ''origin/feature'', qi_description = Some [],
         qi_meta = Some ''origin/feature''\<rparr>,
        \<lparr>qi_label = Some ''dev'', qi_description = Some ''0123456'', qi_meta = Some ''dev''\<rparr>]
   \<and> state_remotes (feature_repository
        [scenario_ref RemoteHead ''origin/dev'', scenario_ref RemoteHead ''origin/feature''])
     = origin # []
   \<and> pushSetUpstream_refs quiet_host
        (feature_repository
           [scenario_ref RemoteHead ''origin/dev'', scenario_ref RemoteHead ''origin/feature''])
     = [\<lparr>qi_label = Some ''origin/dev'', qi_description = Some ''0123456'',
         qi_meta = Some ''origin/dev''\<rparr>,
        \<lparr>qi_label = Some ''origin/feature'', qi_description = Some ''0123456'',
         qi_meta = Some ''origin/feature''\<rparr>]"
  using pushSetUpstream_synthesized_first
    [of "feature_repository [scenario_ref Head ''feature'', scenario_ref Head ''dev'']"
        origin "[]" quiet_host]
    pushSetUpstream_synthesized_first
    [of "feature_repository
           [scenario_ref RemoteHead ''origin/dev'', scenario_ref RemoteHead ''origin/feature'']"
        origin "[]" quiet_host]
  by (simp add: scenario_defs candidate_defs repo_defs js_string_def)

lemma candidate_items_empty_iff:
  "candidate_items host repository refs = [] \<longleftrightarrow>
     (\<forall>ref \<in> set refs. ref_type ref = Tag \<or> ref_name ref = repo_HEAD_name repository)"
proof -
  let ?kept = "filter (\<lambda>ref. ref_type ref \<noteq> Tag \<and> ref_name ref \<noteq> repo_HEAD_name repository) refs"
  have "candidate_items host repository refs = [] \<longleftrightarrow>
      length (sort_key (\<lambda>ref. - RefType_value (ref_type ref)) ?kept) = 0"
    unfolding candidate_items_def map_is_Nil_conv length_0_conv ..
  also have "\<dots> \<longleftrightarrow> ?kept = []"
    by (simp only: length_sort length_0_conv)
  also have "\<dots> \<longleftrightarrow> (\<forall>ref \<in> set refs. ref_type ref = Tag \<or> ref_name ref = repo_HEAD_name repository)"
    by (auto simp: filter_empty_conv)
  finally show ?thesis .
qed

text \<open>
  With a first remote, the list shown is empty exactly when some ref bears the name of
  the candidate and every ref is a tag or the current branch.
\<close>

lemma pushSetUpstream_refs_empty_iff:
  assumes rem: "state_remotes repository = r # rs"
  shows "pushSetUpstream_refs host repository = [] \<longleftrightarrow>
     (\<exists>ref \<in> set (state_refs repository).
        ref_name ref = Some (upstream_candidate_name r repository))
     \<and> (\<forall>ref \<in> set (state_refs repository).
          ref_type ref = Tag \<or> ref_name ref = repo_HEAD_name repository)"
proof (cases "\<exists>ref \<in> set (state_refs repository).
        ref_name ref = Some (upstream_candidate_name r repository)")
  case True
  from choices_named [OF rem True] True show ?thesis
    by (simp add: pushSetUpstream_refs_def candidate_items_empty_iff)
next
  case False
  then have "\<forall>ref \<in> set (state_refs repository).
        ref_name ref \<noteq> Some (upstream_candidate_name r repository)" by blast
  from choices_unnamed [OF rem this] False show ?thesis
    by (simp add: pushSetUpstream_refs_def candidate_items_synthesized)
qed

text \<open>
  Claim C3. The code departs from the claim. With the remote \<open>origin\<close>, on branch
  \<open>feature\<close>, and a single ref, a tag named \<^verbatim>\<open>origin/feature\<close>: the name test of the
  injection runs over all refs, tags included, so the tag stops the injection of the
  synthesized candidate; the tag is then filtered out, and the list shown to the
  chooser is empty, where the claim asks for a non-empty list holding
  \<^verbatim>\<open>origin/feature\<close>.
\<close>

theorem pushSetUpstream_refs_empty_with_tag:
  "state_remotes (feature_repository [scenario_ref Tag ''origin/feature'']) = [origin]
   \<and> repo_HEAD_name (feature_repository [scenario_ref Tag ''origin/feature'']) = Some ''feature''
   \<and> pushSetUpstream_choices (feature_repository [scenario_ref Tag ''origin/feature''])
       = [scenario_ref Tag ''origin/feature'']
   \<and> pushSetUpstream_refs quiet_host (feature_repository [scenario_ref Tag ''origin/feature''])
       = []"
  by (simp add: scenario_defs candidate_defs repo_defs js_string_def)

section \<open>Configure, then retry\<close>

lemma assign_pushRemote_defined:
  assumes "repo_HEAD_name repository = Some ref"
  obtains repository' where "assign_pushRemote v repository = Some repository'"
    and "repo_pushRemote repository' = Some v"
    and "repo_HEAD_name repository' = Some ref"
    and "repo_upstreamRemote repository' = repo_upstreamRemote repository"
    and "state_remotes repository' = state_remotes repository"
    and "state_refs repository' = state_refs repository"
  using assms
  by (auto simp: assign_pushRemote_def repo_HEAD_name_def repo_HEAD_def repo_pushRemote_def
        repo_upstreamRemote_def split: option.splits)

lemma assign_upstreamRemote_defined:
  assumes "repo_HEAD_name repository = Some ref"
  obtains repository' where "assign_upstreamRemote v repository = Some repository'"
    and "repo_upstreamRemote repository' = Some v"
    and "repo_HEAD_name repository' = Some ref"
    and "repo_pushRemote repository' = repo_pushRemote repository"
    and "state_remotes repository' = state_remotes repository"
    and "state_refs repository' = state_refs repository"
  using assms
  by (auto simp: assign_upstreamRemote_def repo_HEAD_name_def repo_HEAD_def repo_pushRemote_def
        repo_upstreamRemote_def split: option.splits)

lemma pushToPushRemote_runs:
  assumes "repo_pushRemote (ms_repository st) = Some p" "up_remote p \<noteq> []"
    and "repo_HEAD_name (ms_repository st) = Some ref" "ref \<noteq> []"
  shows "pushToPushRemote host st =
     ([GitRun (''push'' # map longName (filter enabled (ms_switches st)) @ [up_remote p, ref]) None],
      ms_repository st,
      (case gitRun_result host
              (''push'' # map longName (filter enabled (ms_switches st)) @ [up_remote p, ref]) None of
         Inl e \<Rightarrow> Inl e | Inr r \<Rightarrow> Inr (ProcessResult r)))"
  using assms
  by (simp add: pushToPushRemote_def Let_def truthy_def js_string_def gitRun_def
        switchesToArgs_filter)

lemma pushUpstream_runs:
  assumes "repo_upstreamRemote (ms_repository st) = Some p" "up_remote p \<noteq> []"
    and "repo_HEAD_name (ms_repository st) = Some ref" "ref \<noteq> []"
  shows "pushUpstream host st =
     ([GitRun (''push'' # map longName (filter enabled (ms_switches st)) @ [up_remote p, ref]) None],
      ms_repository st,
      (case gitRun_result host
              (''push'' # map longName (filter enabled (ms_switches st)) @ [up_remote p, ref]) None of
         Inl e \<Rightarrow> Inl e | Inr r \<Rightarrow> Inr (ProcessResult r)))"
  using assms
  by (simp add: pushUpstream_def Let_def truthy_def js_string_def gitRun_def
        switchesToArgs_filter)

lemma promise_all_None: "promise_all b x y = None \<longleftrightarrow> x = None \<and> y = None"
  by (simp add: promise_all_def split: option.splits)

text \<open>
  Claim C4. When the quick menu answers a non-empty remote \<open>chosen\<close> (for the claim:
  \<open>origin\<close>) on a branch \<open>ref\<close> (\<open>main\<close>): if the write of
  \<^verbatim>\<open>branch.ref.pushRemote = chosen\<close> succeeds, the trace is the menu, the write, the
  assignment of \<open>{name: ref, remote: chosen}\<close> to \<open>HEAD.pushRemote\<close>, and then the
  process invocation \<^verbatim>\<open>push\<close>, the long forms of the enabled switches, \<open>chosen\<close>,
  \<open>ref\<close>, in this order, and the repository afterwards holds that push remote; if the
  write fails, the failure is raised with nothing assigned and nothing run. When the
  menu is dismissed (no selection, or a rejection), only the menu is in the trace and
  the repository is unchanged.
\<close>

theorem pushSetPushRemote_configure_then_retry:
  "(showMenu_result host (remote_items (ms_repository st)) = Inr (Some chosen) \<and> chosen \<noteq> []
      \<and> repo_HEAD_name (ms_repository st) = Some ref \<and> ref \<noteq> [] \<longrightarrow>
      (setConfig_result host (''branch.'' @ ref @ ''.pushRemote'') chosen = None \<longrightarrow>
         (\<exists>repository'.
            pushSetPushRemote host st =
              ([ShowQuickMenu (remote_items (ms_repository st)),
                SetConfig (''branch.'' @ ref @ ''.pushRemote'') chosen,
                AssignPushRemote \<lparr>up_name = ref, up_remote = chosen\<rparr>,
                GitRun (''push'' # map longName (filter enabled (ms_switches st)) @ [chosen, ref])
                  None],
               repository',
               (case gitRun_result host
                       (''push'' # map longName (filter enabled (ms_switches st)) @ [chosen, ref])
                       None of
                  Inl e \<Rightarrow> Inl e | Inr r \<Rightarrow> Inr (ProcessResult r)))
            \<and> repo_pushRemote repository' = Some \<lparr>up_name = ref, up_remote = chosen\<rparr>))
      \<and> (\<forall>e. setConfig_result host (''branch.'' @ ref @ ''.pushRemote'') chosen = Some e \<longrightarrow>
            pushSetPushRemote host st =
              ([ShowQuickMenu (remote_items (ms_repository st)),
                SetConfig (''branch.'' @ ref @ ''.pushRemote'') chosen],
               ms_repository st, Inl e)))
   \<and> (showMenu_result host (remote_items (ms_repository st)) = Inr None \<longrightarrow>
        pushSetPushRemote host st =
          ([ShowQuickMenu (remote_items (ms_repository st))], ms_repository st, Inr Undefined))
   \<and> (\<forall>e. showMenu_result host (remote_items (ms_repository st)) = Inl e \<longrightarrow>
        pushSetPushRemote host st =
          ([ShowQuickMenu (remote_items (ms_repository st))], ms_repository st, Inl e))"
proof -
  let ?items = "remote_items (ms_repository st)"
  let ?key = "''branch.'' @ ref @ ''.pushRemote''"
  let ?v = "\<lparr>up_name = ref, up_remote = chosen\<rparr>"
  {
    assume pick: "showMenu_result host ?items = Inr (Some chosen)" "chosen \<noteq> []"
      and head: "repo_HEAD_name (ms_repository st) = Some ref" "ref \<noteq> []"
      and ok: "setConfig_result host ?key chosen = None"
    from head(1) obtain repository' where
      asg: "assign_pushRemote ?v (ms_repository st) = Some repository'"
      and pr: "repo_pushRemote repository' = Some ?v"
      and hn: "repo_HEAD_name repository' = Some ref"
      by (rule assign_pushRemote_defined)
    have retry: "pushToPushRemote host (st\<lparr>ms_repository := repository'\<rparr>) =
       ([GitRun (''push'' # map longName (filter enabled (ms_switches st)) @ [chosen, ref]) None],
        repository',
        (case gitRun_result host
              (''push'' # map longName (filter enabled (ms_switches st)) @ [chosen, ref]) None of
         Inl e \<Rightarrow> Inl e | Inr r \<Rightarrow> Inr (ProcessResult r)))"
      using pushToPushRemote_runs [of "st\<lparr>ms_repository := repository'\<rparr>" ?v ref host]
        pr hn pick(2) head(2) by simp
    have "pushSetPushRemote host st =
              ([ShowQuickMenu ?items, SetConfig ?key chosen, AssignPushRemote ?v,
                GitRun (''push'' # map longName (filter enabled (ms_switches st)) @ [chosen, ref])
                  None],
               repository',
               (case gitRun_result host
                       (''push'' # map longName (filter enabled (ms_switches st)) @ [chosen, ref])
                       None of
                  Inl e \<Rightarrow> Inl e | Inr r \<Rightarrow> Inr (ProcessResult r)))"
      using pick head ok asg
      by (simp add: pushSetPushRemote_def Let_def truthy_def js_string_def retry after_def)
    with pr have "\<exists>repository'.
            pushSetPushRemote host st =
              ([ShowQuickMenu ?items, SetConfig ?key chosen, AssignPushRemote ?v,
                GitRun (''push'' # map longName (filter enabled (ms_switches st)) @ [chosen, ref])
                  None],
               repository',
               (case gitRun_result host
                       (''push'' # map longName (filter enabled (ms_switches st)) @ [chosen, ref])
                       None of
                  Inl e \<Rightarrow> Inl e | Inr r \<Rightarrow> Inr (ProcessResult r)))
            \<and> repo_pushRemote repository' = Some ?v"
      by blast
  }
  moreover
  {
    fix e
    assume "showMenu_result host ?items = Inr (Some chosen)" "chosen \<noteq> []"
      "repo_HEAD_name (ms_repository st) = Some ref" "ref \<noteq> []"
      "setConfig_result host ?key chosen = Some e"
    then have "pushSetPushRemote host st =
       ([ShowQuickMenu ?items, SetConfig ?key chosen], ms_repository st, Inl e)"
      by (simp add: pushSetPushRemote_def Let_def truthy_def js_string_def)
  }
  moreover
  {
    assume "showMenu_result host ?items = Inr None"
    then have "pushSetPushRemote host st = ([ShowQuickMenu ?items], ms_repository st, Inr Undefined)"
      by (simp add: pushSetPushRemote_def Let_def truthy_def no_op_def)
  }
  moreover
  {
    fix e
    assume "showMenu_result host ?items = Inl e"
    then have "pushSetPushRemote host st = ([ShowQuickMenu ?items], ms_repository st, Inl e)"
      by (simp add: pushSetPushRemote_def Let_def)
  }
  ultimately show ?thesis by blast
qed

theorem pushSetPushRemote_configure_then_retry_witness:
  "showMenu_result (choosing_host ''origin'') (remote_items main_repository) = Inr (Some ''origin'')
   \<and> repo_HEAD_name main_repository = Some ''main''
   \<and> repo_pushRemote main_repository = None
   \<and> setConfig_result (choosing_host ''origin'') ''branch.main.pushRemote'' ''origin'' = None
   \<and> fst (pushSetPushRemote (choosing_host ''origin'') (forced_push_state main_repository))
      = [ShowQuickMenu [\<lparr>qi_label = Some ''origin'', qi_description = None,
                         qi_meta = Some ''origin''\<rparr>],
         SetConfig ''branch.main.pushRemote'' ''origin'',
         AssignPushRemote \<lparr>up_name = ''main'', up_remote = ''origin''\<rparr>,
         GitRun [''push'', ''--force'', ''origin'', ''main''] None]
   \<and> repo_pushRemote
        (fst (snd (pushSetPushRemote (choosing_host ''origin'') (forced_push_state main_repository))))
      = Some \<lparr>up_name = ''main'', up_remote = ''origin''\<rparr>
   \<and> setConfig_result (locked_store_host ''origin'') ''branch.main.pushRemote'' ''origin''
      = Some (Error ''locked'')
   \<and> pushSetPushRemote (locked_store_host ''origin'') (forced_push_state main_repository)
      = ([ShowQuickMenu [\<lparr>qi_label = Some ''origin'', qi_description = None,
                          qi_meta = Some ''origin''\<rparr>],
          SetConfig ''branch.main.pushRemote'' ''origin''],
         main_repository, Inl (Error ''locked''))
   \<and> showMenu_result quiet_host (remote_items main_repository) = Inr None
   \<and> pushSetPushRemote quiet_host (forced_push_state main_repository)
      = ([ShowQuickMenu [\<lparr>qi_label = Some ''origin'', qi_description = None,
                          qi_meta = Some ''origin''\<rparr>]],
         main_repository, Inr Undefined)
   \<and> showMenu_result rejecting_host (remote_items main_repository) = Inl (Error ''closed'')
   \<and> pushSetPushRemote rejecting_host (forced_push_state main_repository)
      = ([ShowQuickMenu [\<lparr>qi_label = Some ''origin'', qi_description = None,
                          qi_meta = Some ''origin''\<rparr>]],
         main_repository, Inl (Error ''closed''))"
  using pushSetPushRemote_configure_then_retry
      [of "choosing_host ''origin''" "forced_push_state main_repository" "''origin''" "''main''"]
    pushSetPushRemote_configure_then_retry
      [of "locked_store_host ''origin''" "forced_push_state main_repository" "''origin''" "''main''"]
    pushSetPushRemote_configure_then_retry
      [of quiet_host "forced_push_state main_repository"]
    pushSetPushRemote_configure_then_retry
      [of rejecting_host "forced_push_state main_repository"]
  by (simp add: scenario_defs action_defs repo_defs)

text \<open>
  Claim C5. When the chosen candidate splits into a non-empty remote and name, both
  \<^verbatim>\<open>branch.ref.merge = refs/heads/name\<close> and \<^verbatim>\<open>branch.ref.remote = remote\<close> are
  written; when both writes succeed the assignment of \<open>{name, remote}\<close> to
  \<open>HEAD.upstreamRemote\<close> and the push-to-upstream invocation follow them in the trace,
  in this order; when either write fails the call raises after the two writes were
  issued, with nothing assigned and no process run.
\<close>

theorem pushSetUpstream_configure_then_retry:
  "showMenu_result host (pushSetUpstream_refs host (ms_repository st)) = Inr (Some chosen)
     \<and> chosen \<noteq> []
     \<and> repo_HEAD_name (ms_repository st) = Some ref \<and> ref \<noteq> []
     \<and> remoteBranchFullNameToSegments host chosen = (Some remote, Some name)
     \<and> remote \<noteq> [] \<and> name \<noteq> [] \<longrightarrow>
   (setConfig_result host (''branch.'' @ ref @ ''.merge'') (''refs/heads/'' @ name) = None
      \<and> setConfig_result host (''branch.'' @ ref @ ''.remote'') remote = None \<longrightarrow>
      (\<exists>repository'.
         pushSetUpstream host st =
           ([ShowQuickMenu (pushSetUpstream_refs host (ms_repository st)),
             SetConfig (''branch.'' @ ref @ ''.merge'') (''refs/heads/'' @ name),
             SetConfig (''branch.'' @ ref @ ''.remote'') remote,
             AssignUpstreamRemote \<lparr>up_name = name, up_remote = remote\<rparr>,
             GitRun (''push'' # map longName (filter enabled (ms_switches st)) @ [remote, ref])
               None],
            repository',
            (case gitRun_result host
                    (''push'' # map longName (filter enabled (ms_switches st)) @ [remote, ref])
                    None of
               Inl e \<Rightarrow> Inl e | Inr r \<Rightarrow> Inr (ProcessResult r)))
         \<and> repo_upstreamRemote repository' = Some \<lparr>up_name = name, up_remote = remote\<rparr>))
   \<and> (setConfig_result host (''branch.'' @ ref @ ''.merge'') (''refs/heads/'' @ name) \<noteq> None
        \<or> setConfig_result host (''branch.'' @ ref @ ''.remote'') remote \<noteq> None \<longrightarrow>
      (\<exists>e. pushSetUpstream host st =
           ([ShowQuickMenu (pushSetUpstream_refs host (ms_repository st)),
             SetConfig (''branch.'' @ ref @ ''.merge'') (''refs/heads/'' @ name),
             SetConfig (''branch.'' @ ref @ ''.remote'') remote],
            ms_repository st, Inl e)))"
proof -
  let ?refs = "pushSetUpstream_refs host (ms_repository st)"
  let ?k1 = "''branch.'' @ ref @ ''.merge''"
  let ?v1 = "''refs/heads/'' @ name"
  let ?k2 = "''branch.'' @ ref @ ''.remote''"
  let ?v = "\<lparr>up_name = name, up_remote = remote\<rparr>"
  let ?args = "''push'' # map longName (filter enabled (ms_switches st)) @ [remote, ref]"
  {
    assume pick: "showMenu_result host ?refs = Inr (Some chosen)" "chosen \<noteq> []"
      and head: "repo_HEAD_name (ms_repository st) = Some ref" "ref \<noteq> []"
      and segs: "remoteBranchFullNameToSegments host chosen = (Some remote, Some name)"
        "remote \<noteq> []" "name \<noteq> []"
    {
      assume ok: "setConfig_result host ?k1 ?v1 = None" "setConfig_result host ?k2 remote = None"
      from head(1) obtain repository' where
        asg: "assign_upstreamRemote ?v (ms_repository st) = Some repository'"
        and ur: "repo_upstreamRemote repository' = Some ?v"
        and hn: "repo_HEAD_name repository' = Some ref"
        by (rule assign_upstreamRemote_defined)
      have retry: "pushUpstream host (st\<lparr>ms_repository := repository'\<rparr>) =
         ([GitRun ?args None], repository',
          (case gitRun_result host ?args None of
             Inl e \<Rightarrow> Inl e | Inr r \<Rightarrow> Inr (ProcessResult r)))"
        using pushUpstream_runs [of "st\<lparr>ms_repository := repository'\<rparr>" ?v ref host]
          ur hn segs(2) head(2) by simp
      have "pushSetUpstream host st =
           ([ShowQuickMenu ?refs, SetConfig ?k1 ?v1, SetConfig ?k2 remote,
             AssignUpstreamRemote ?v, GitRun ?args None],
            repository',
            (case gitRun_result host ?args None of
               Inl e \<Rightarrow> Inl e | Inr r \<Rightarrow> Inr (ProcessResult r)))"
        using pick head segs ok asg
        by (simp add: pushSetUpstream_def Let_def truthy_def js_string_def retry after_def
              promise_all_def)
      with ur have "\<exists>repository'.
         pushSetUpstream host st =
           ([ShowQuickMenu ?refs, SetConfig ?k1 ?v1, SetConfig ?k2 remote,
             AssignUpstreamRemote ?v, GitRun ?args None],
            repository',
            (case gitRun_result host ?args None of
               Inl e \<Rightarrow> Inl e | Inr r \<Rightarrow> Inr (ProcessResult r)))
         \<and> repo_upstreamRemote repository' = Some ?v"
        by blast
    }
    moreover
    {
      assume bad: "setConfig_result host ?k1 ?v1 \<noteq> None \<or> setConfig_result host ?k2 remote \<noteq> None"
      then have "promise_all (second_write_fails_first host)
          (setConfig_result host ?k1 ?v1) (setConfig_result host ?k2 remote) \<noteq> None"
        by (simp add: promise_all_None)
      then obtain e where e: "promise_all (second_write_fails_first host)
          (setConfig_result host ?k1 ?v1) (setConfig_result host ?k2 remote) = Some e"
        by blast
      have "pushSetUpstream host st =
           ([ShowQuickMenu ?refs, SetConfig ?k1 ?v1, SetConfig ?k2 remote], ms_repository st, Inl e)"
        using pick head segs e
        by (simp add: pushSetUpstream_def Let_def truthy_def js_string_def)
      then have "\<exists>e. pushSetUpstream host st =
           ([ShowQuickMenu ?refs, SetConfig ?k1 ?v1, SetConfig ?k2 remote], ms_repository st, Inl e)"
        by blast
    }
    ultimately have "(setConfig_result host ?k1 ?v1 = None \<and> setConfig_result host ?k2 remote = None \<longrightarrow>
      (\<exists>repository'.
         pushSetUpstream host st =
           ([ShowQuickMenu ?refs, SetConfig ?k1 ?v1, SetConfig ?k2 remote,
             AssignUpstreamRemote ?v, GitRun ?args None],
            repository',
            (case gitRun_result host ?args None of
               Inl e \<Rightarrow> Inl e | Inr r \<Rightarrow> Inr (ProcessResult r)))
         \<and> repo_upstreamRemote repository' = Some ?v))
     \<and> (setConfig_result host ?k1 ?v1 \<noteq> None \<or> setConfig_result host ?k2 remote \<noteq> None \<longrightarrow>
      (\<exists>e. pushSetUpstream host st =
           ([ShowQuickMenu ?refs, SetConfig ?k1 ?v1, SetConfig ?k2 remote], ms_repository st, Inl e)))"
      by blast
  }
  then show ?thesis by blast
qed

theorem pushSetUpstream_configure_then_retry_witness:
  "showMenu_result (choosing_host ''origin/feature'')
       (pushSetUpstream_refs (choosing_host ''origin/feature'') (feature_repository []))
     = Inr (Some ''origin/feature'')
   \<and> repo_HEAD_name (feature_repository []) = Some ''feature''
   \<and> remoteBranchFullNameToSegments (choosing_host ''origin/feature'') ''origin/feature''
     = (Some ''origin'', Some ''feature'')
   \<and> fst (pushSetUpstream (choosing_host ''origin/feature'') (forced_push_state (feature_repository [])))
      = [ShowQuickMenu [\<lparr>qi_label = Some ''origin/feature'', qi_description = Some [],
                         qi_meta = Some ''origin/feature''\<rparr>],
         SetConfig ''branch.feature.merge'' ''refs/heads/feature'',
         SetConfig ''branch.feature.remote'' ''origin'',
         AssignUpstreamRemote \<lparr>up_name = ''feature'', up_remote = ''origin''\<rparr>,
         GitRun [''push'', ''--force'', ''origin'', ''feature''] None]
   \<and> repo_upstreamRemote
        (fst (snd (pushSetUpstream (choosing_host ''origin/feature'')
                     (forced_push_state (feature_repository [])))))
      = Some \<lparr>up_name = ''feature'', up_remote = ''origin''\<rparr>
   \<and> setConfig_result (locked_store_host ''origin/feature'') ''branch.feature.merge''
        ''refs/heads/feature'' \<noteq> None
   \<and> pushSetUpstream (locked_store_host ''origin/feature'') (forced_push_state (feature_repository []))
      = ([ShowQuickMenu [\<lparr>qi_label = Some ''origin/feature'', qi_description = Some [],
                          qi_meta = Some ''origin/feature''\<rparr>],
          SetConfig ''branch.feature.merge'' ''refs/heads/feature'',
          SetConfig ''branch.feature.remote'' ''origin''],
         feature_repository [], Inl (Error ''locked''))"
  using pushSetUpstream_configure_then_retry
      [of "choosing_host ''origin/feature''" "forced_push_state (feature_repository [])"
          "''origin/feature''" "''feature''" "''origin''" "''feature''"]
    pushSetUpstream_configure_then_retry
      [of "locked_store_host ''origin/feature''" "forced_push_state (feature_repository [])"
          "''origin/feature''" "''feature''" "''origin''" "''feature''"]
  by (simp add: scenario_defs action_defs candidate_defs repo_defs)

section \<open>The commit orchestrator\<close>

lemma closeStagedEditor_events:
  "set (fst (closeStagedEditor host editor visible n))
     \<subseteq> range (\<lambda>(u, c). ShowTextDocument u c) \<union> range ExecuteCommand"
proof (induction visible arbitrary: n)
  case Nil
  show ?case by simp
next
  case (Cons v rest)
  show ?case
    using Cons.IH [of n] Cons.IH [of "Suc n"]
    by (auto simp: Let_def split: option.splits sum.splits prod.splits)
qed

lemma closeStagedEditor_no_status:
  "SetStatusBarMessage m t \<notin> set (fst (closeStagedEditor host editor visible n))"
  using closeStagedEditor_events [of host editor visible n] by auto

lemma closeStagedEditor_no_dispose:
  "DisposeInstructionStatus \<notin> set (fst (closeStagedEditor host editor visible n))"
  using closeStagedEditor_events [of host editor visible n] by auto

lemma closeStagedEditor_no_preview:
  "ShowDiffSection \<notin> set (fst (closeStagedEditor host editor visible n))"
  using closeStagedEditor_events [of host editor visible n] by auto

lemma closeStagedEditor_count_le:
  "count_list (fst (closeStagedEditor host editor visible n))
      (ExecuteCommand ''workbench.action.closeActiveEditor'')
   \<le> length (filter (\<lambda>v. document_uri v = document_uri editor) visible)"
proof (induction visible arbitrary: n)
  case Nil
  show ?case by simp
next
  case (Cons v rest)
  show ?case
    using Cons.IH [of n] Cons.IH [of "Suc n"]
    by (auto simp: Let_def split: option.splits sum.splits prod.splits)
qed

lemma closeStagedEditor_count:
  "snd (closeStagedEditor host editor visible n) = None \<Longrightarrow>
   count_list (fst (closeStagedEditor host editor visible n))
      (ExecuteCommand ''workbench.action.closeActiveEditor'')
   = length (filter (\<lambda>v. document_uri v = document_uri editor) visible)"
proof (induction visible arbitrary: n)
  case Nil
  show ?case by simp
next
  case (Cons v rest)
  show ?case
    using Cons.prems Cons.IH [of n] Cons.IH [of "Suc n"]
    by (auto simp: Let_def split: option.splits sum.splits prod.splits)
qed

text \<open>When nothing the loop awaits rejects, the loop completes.\<close>

lemma closeStagedEditor_completes:
  "(\<forall>u c. showTextDocument_result host u c = None) \<Longrightarrow>
   executeCommand_result host ''workbench.action.closeActiveEditor'' = Inr closed \<Longrightarrow>
   snd (closeStagedEditor host editor visible n) = None"
proof (induction visible arbitrary: n)
  case Nil
  show ?case by simp
next
  case (Cons v rest)
  show ?case
    using Cons.prems Cons.IH [of n] Cons.IH [of "Suc n"]
    by (auto simp: Let_def split: option.splits sum.splits prod.splits)
qed

lemma finally_block_trace:
  "\<exists>tr. fst (finally_block host shown) = AwaitStagedEditorTask # tr
     \<and> set tr \<subseteq> range (\<lambda>(u, c). ShowTextDocument u c) \<union> range ExecuteCommand"
proof (cases "shown")
  case False
  then show ?thesis by (simp add: finally_block_def)
next
  case True
  show ?thesis
  proof (cases "stagedEditorTask_result host")
    case (Inl e)
    with True show ?thesis by (simp add: finally_block_def)
  next
    case (Inr editor)
    with True closeStagedEditor_events [of host editor "visibleTextEditors host" 0]
    show ?thesis
      by (simp add: finally_block_def case_prod_beta)
  qed
qed

lemma finally_block_resolved:
  "stagedEditorTask_result host = Inr editor \<Longrightarrow>
   finally_block host True =
     (AwaitStagedEditorTask # fst (closeStagedEditor host editor (visibleTextEditors host) 0),
      snd (closeStagedEditor host editor (visibleTextEditors host) 0))"
  by (simp add: finally_block_def case_prod_beta)

lemma finally_block_rejected:
  "stagedEditorTask_result host = Inl e \<Longrightarrow>
   finally_block host True = ([AwaitStagedEditorTask], Some e)"
  by (simp add: finally_block_def)

lemma runCommitLikeCommand_trace:
  "fst (runCommitLikeCommand host repository args options) =
     (SetStatusBarMessage ''Type C-c C-c to finish, or C-c C-k to cancel'' None
        # (if truthy_flag (opt_showStagedChanges (given_options options)) then [ShowDiffSection] else [])
        @ GitRun args (Some (commit_env host (given_options options)))
        # (if truthy_flag (opt_updatePostCommitTask (given_options options))
           then [Delay 100, MagitStatusAndUpdate] else []))
     @ [DisposeInstructionStatus,
        (case gitRun_result host args (Some (commit_env host (given_options options))) of
           Inr commitSuccessMessage \<Rightarrow>
             SetStatusBarMessage
               (''Git finished: '' @ replaceLineSplitter host (stdout commitSuccessMessage))
               (Some (StatusMessageDisplayTimeout host))
         | Inl e \<Rightarrow>
             SetStatusBarMessage ''Commit canceled.'' (Some (StatusMessageDisplayTimeout host)))]
     @ fst (finally_block host (truthy_flag (opt_showStagedChanges (given_options options))))"
  by (simp add: runCommitLikeCommand_def Let_def split: sum.splits)

lemma runCommitLikeCommand_outcome:
  "snd (runCommitLikeCommand host repository args options) =
     (case snd (finally_block host (truthy_flag (opt_showStagedChanges (given_options options)))) of
        Some e' \<Rightarrow> Inl e'
      | None \<Rightarrow>
          (case gitRun_result host args (Some (commit_env host (given_options options))) of
             Inr commitSuccessMessage \<Rightarrow> Inr ()
           | Inl e \<Rightarrow>
               if truthy_flag (opt_propagateErrors (given_options options))
               then Inl e else Inr ()))"
  by (simp add: runCommitLikeCommand_def Let_def split: sum.splits option.splits)

text \<open>
  Claim C1, amended. When the git process fails with \<open>e\<close>, the trace shows the
  instruction message first, then, after the process was started, the disposal of the
  instruction message immediately followed by the message \<^verbatim>\<open>Commit canceled.\<close>, with
  no disposal and no such message before the pair and no disposal or status message
  after it. If the \<^verbatim>\<open>finally\<close> block completes, the call returns normally when
  \<open>propagateErrors\<close> is false or unset (also when no options are passed) and throws
  \<open>e\<close> when it is true. If an await of the \<^verbatim>\<open>finally\<close> block rejects with \<open>e'\<close>, the
  call throws \<open>e'\<close>, whatever \<open>propagateErrors\<close> is.
\<close>

theorem runCommitLikeCommand_process_failure:
  "gitRun_result host args (Some (commit_env host (given_options options))) = Inl e \<longrightarrow>
     (\<exists>before after.
          fst (runCommitLikeCommand host repository args options)
            = before
              @ [DisposeInstructionStatus,
                 SetStatusBarMessage ''Commit canceled.'' (Some (StatusMessageDisplayTimeout host))]
              @ after
          \<and> hd before = SetStatusBarMessage ''Type C-c C-c to finish, or C-c C-k to cancel'' None
          \<and> DisposeInstructionStatus \<notin> set before
          \<and> (\<forall>t. SetStatusBarMessage ''Commit canceled.'' t \<notin> set before)
          \<and> (\<forall>m t. SetStatusBarMessage m t \<notin> set after)
          \<and> DisposeInstructionStatus \<notin> set after)
     \<and> (snd (finally_block host (truthy_flag (opt_showStagedChanges (given_options options))))
           = None \<longrightarrow>
         snd (runCommitLikeCommand host repository args options)
           = (if truthy_flag (opt_propagateErrors (given_options options)) then Inl e else Inr ()))
     \<and> (\<forall>e'. snd (finally_block host (truthy_flag (opt_showStagedChanges (given_options options))))
           = Some e' \<longrightarrow>
         snd (runCommitLikeCommand host repository args options) = Inl e')"
proof
  assume fails: "gitRun_result host args (Some (commit_env host (given_options options))) = Inl e"
  let ?shown = "truthy_flag (opt_showStagedChanges (given_options options))"
  let ?before = "SetStatusBarMessage ''Type C-c C-c to finish, or C-c C-k to cancel'' None
        # (if ?shown then [ShowDiffSection] else [])
        @ GitRun args (Some (commit_env host (given_options options)))
        # (if truthy_flag (opt_updatePostCommitTask (given_options options))
           then [Delay 100, MagitStatusAndUpdate] else [])"
  let ?after = "fst (finally_block host ?shown)"
  have completes: "snd (finally_block host ?shown) = None \<longrightarrow>
         snd (runCommitLikeCommand host repository args options)
           = (if truthy_flag (opt_propagateErrors (given_options options)) then Inl e else Inr ())"
    by (simp add: runCommitLikeCommand_outcome fails)
  have rejects: "\<forall>e'. snd (finally_block host ?shown) = Some e' \<longrightarrow>
         snd (runCommitLikeCommand host repository args options) = Inl e'"
    by (simp add: runCommitLikeCommand_outcome)
  have tr: "fst (runCommitLikeCommand host repository args options)
            = ?before
              @ [DisposeInstructionStatus,
                 SetStatusBarMessage ''Commit canceled.'' (Some (StatusMessageDisplayTimeout host))]
              @ ?after"
    by (simp add: runCommitLikeCommand_trace fails)
  have b1: "hd ?before = SetStatusBarMessage ''Type C-c C-c to finish, or C-c C-k to cancel'' None"
    by simp
  have b2: "DisposeInstructionStatus \<notin> set ?before" by simp
  have b3: "\<forall>t. SetStatusBarMessage ''Commit canceled.'' t \<notin> set ?before" by simp
  obtain cl where cl: "?after = AwaitStagedEditorTask # cl"
    "set cl \<subseteq> range (\<lambda>(u, c). ShowTextDocument u c) \<union> range ExecuteCommand"
    using finally_block_trace [of host ?shown] by blast
  have a1: "\<forall>m t. SetStatusBarMessage m t \<notin> set ?after"
    using cl by auto
  have a2: "DisposeInstructionStatus \<notin> set ?after"
    using cl by auto
  from tr b1 b2 b3 a1 a2 have "\<exists>before after.
          fst (runCommitLikeCommand host repository args options)
            = before
              @ [DisposeInstructionStatus,
                 SetStatusBarMessage ''Commit canceled.'' (Some (StatusMessageDisplayTimeout host))]
              @ after
          \<and> hd before = SetStatusBarMessage ''Type C-c C-c to finish, or C-c C-k to cancel'' None
          \<and> DisposeInstructionStatus \<notin> set before
          \<and> (\<forall>t. SetStatusBarMessage ''Commit canceled.'' t \<notin> set before)
          \<and> (\<forall>m t. SetStatusBarMessage m t \<notin> set after)
          \<and> DisposeInstructionStatus \<notin> set after"
    by blast
  with completes rejects show "(\<exists>before after.
          fst (runCommitLikeCommand host repository args options)
            = before
              @ [DisposeInstructionStatus,
                 SetStatusBarMessage ''Commit canceled.'' (Some (StatusMessageDisplayTimeout host))]
              @ after
          \<and> hd before = SetStatusBarMessage ''Type C-c C-c to finish, or C-c C-k to cancel'' None
          \<and> DisposeInstructionStatus \<notin> set before
          \<and> (\<forall>t. SetStatusBarMessage ''Commit canceled.'' t \<notin> set before)
          \<and> (\<forall>m t. SetStatusBarMessage m t \<notin> set after)
          \<and> DisposeInstructionStatus \<notin> set after)
     \<and> (snd (finally_block host ?shown) = None \<longrightarrow>
         snd (runCommitLikeCommand host repository args options)
           = (if truthy_flag (opt_propagateErrors (given_options options)) then Inl e else Inr ()))
     \<and> (\<forall>e'. snd (finally_block host ?shown) = Some e' \<longrightarrow>
         snd (runCommitLikeCommand host repository args options) = Inl e')"
    by blast
qed

theorem runCommitLikeCommand_process_failure_witness:
  "gitRun_result (canceling_host []) [''commit'']
       (Some (commit_env (canceling_host []) (given_options None))) = Inl (Error ''exit 1'')
   \<and> snd (finally_block (canceling_host []) True) = None
   \<and> runCommitLikeCommand (canceling_host []) main_repository [''commit''] None
     = ([SetStatusBarMessage ''Type C-c C-c to finish, or C-c C-k to cancel'' None,
         ShowDiffSection,
         GitRun [''commit''] (Some [(''GIT_EDITOR'', CHR 0x22 # ''code'' @ CHR 0x22 # '' --wait'')]),
         DisposeInstructionStatus,
         SetStatusBarMessage ''Commit canceled.'' (Some 10000),
         AwaitStagedEditorTask],
        Inr ())
   \<and> gitRun_result (canceling_host [\<lparr>document_uri = 1\<rparr>]) [''commit'']
       (Some (commit_env (canceling_host [\<lparr>document_uri = 1\<rparr>])
          (given_options (Some previewing_and_propagating))))
     = Inl (Error ''exit 1'')
   \<and> snd (finally_block (canceling_host [\<lparr>document_uri = 1\<rparr>]) True) = None
   \<and> runCommitLikeCommand (canceling_host [\<lparr>document_uri = 1\<rparr>]) main_repository [''commit'']
        (Some previewing_and_propagating)
     = ([SetStatusBarMessage ''Type C-c C-c to finish, or C-c C-k to cancel'' None,
         ShowDiffSection,
         GitRun [''commit''] (Some [(''GIT_EDITOR'', CHR 0x22 # ''code'' @ CHR 0x22 # '' --wait'')]),
         DisposeInstructionStatus,
         SetStatusBarMessage ''Commit canceled.'' (Some 10000),
         AwaitStagedEditorTask,
         ShowTextDocument 1 2,
         ExecuteCommand ''workbench.action.closeActiveEditor'',
         ExecuteCommand ''workbench.action.navigateLeft''],
        Inl (Error ''exit 1''))
   \<and> snd (finally_block (stuck_close_host [\<lparr>document_uri = 1\<rparr>]) True)
     = Some (Error ''close failed'')
   \<and> snd (runCommitLikeCommand (stuck_close_host [\<lparr>document_uri = 1\<rparr>]) main_repository
            [''commit''] None)
     = Inl (Error ''close failed'')"
  using runCommitLikeCommand_process_failure
      [of "canceling_host []" "[''commit'']" None "Error ''exit 1''" main_repository]
    runCommitLikeCommand_process_failure
      [of "canceling_host [\<lparr>document_uri = 1\<rparr>]" "[''commit'']"
          "Some previewing_and_propagating" "Error ''exit 1''" main_repository]
    runCommitLikeCommand_process_failure
      [of "stuck_close_host [\<lparr>document_uri = 1\<rparr>]" "[''commit'']" None "Error ''exit 1''"
          main_repository]
  by (simp add: scenario_defs commit_defs)

theorem runCommitLikeCommand_cleanup_rejects_counterexample:
  "gitRun_result (stuck_close_host [\<lparr>document_uri = 1\<rparr>]) [''commit'']
       (Some (commit_env (stuck_close_host [\<lparr>document_uri = 1\<rparr>]) (given_options None)))
     = Inl (Error ''exit 1'')
   \<and> opt_propagateErrors (given_options None) = None
   \<and> snd (runCommitLikeCommand (stuck_close_host [\<lparr>document_uri = 1\<rparr>]) main_repository
            [''commit''] None)
     = Inl (Error ''close failed'')
   \<and> gitRun_result no_preview_host [''commit'']
       (Some (commit_env no_preview_host (given_options (Some previewing_and_propagating))))
     = Inl (Error ''exit 1'')
   \<and> opt_propagateErrors (given_options (Some previewing_and_propagating)) = Some True
   \<and> snd (runCommitLikeCommand no_preview_host main_repository [''commit'']
            (Some previewing_and_propagating))
     = Inl (Error ''no preview'')"
  by (simp add: scenario_defs commit_defs)

text \<open>
  Claim C2, amended. When the preview is started, on every exit path (whatever the
  process answers and whatever \<open>propagateErrors\<close> is) the trace is what the
  \<^verbatim>\<open>try\<close> and \<^verbatim>\<open>catch\<close> blocks did, with no close in it, then the await of the preview
  task, then the clean-up. If the task resolves to an editor, the close command is
  issued at most once for each visible editor on that editor's document, and exactly
  once for each of them when no awaited call of the loop rejects: exactly once when
  exactly one of them is on screen, not at all when none is. If the task rejects,
  nothing is closed.
\<close>

theorem runCommitLikeCommand_closes_visible_previews:
  "truthy_flag (opt_showStagedChanges (given_options options)) \<longrightarrow>
     (\<exists>before cleanup.
        fst (runCommitLikeCommand host repository args options)
          = before @ AwaitStagedEditorTask # cleanup
        \<and> ShowDiffSection \<in> set before
        \<and> AwaitStagedEditorTask \<notin> set before
        \<and> ExecuteCommand ''workbench.action.closeActiveEditor'' \<notin> set before)
     \<and> (\<forall>editor. stagedEditorTask_result host = Inr editor \<longrightarrow>
           count_list (fst (runCommitLikeCommand host repository args options))
               (ExecuteCommand ''workbench.action.closeActiveEditor'')
             \<le> length (filter (\<lambda>v. document_uri v = document_uri editor)
                         (visibleTextEditors host))
           \<and> (snd (closeStagedEditor host editor (visibleTextEditors host) 0) = None \<longrightarrow>
                count_list (fst (runCommitLikeCommand host repository args options))
                    (ExecuteCommand ''workbench.action.closeActiveEditor'')
                  = length (filter (\<lambda>v. document_uri v = document_uri editor)
                              (visibleTextEditors host))))
     \<and> (\<forall>e. stagedEditorTask_result host = Inl e \<longrightarrow>
           count_list (fst (runCommitLikeCommand host repository args options))
               (ExecuteCommand ''workbench.action.closeActiveEditor'') = 0)"
proof
  assume shown: "truthy_flag (opt_showStagedChanges (given_options options))"
  let ?close = "ExecuteCommand ''workbench.action.closeActiveEditor''"
  let ?before = "(SetStatusBarMessage ''Type C-c C-c to finish, or C-c C-k to cancel'' None
        # [ShowDiffSection]
        @ GitRun args (Some (commit_env host (given_options options)))
        # (if truthy_flag (opt_updatePostCommitTask (given_options options))
           then [Delay 100, MagitStatusAndUpdate] else []))
     @ [DisposeInstructionStatus,
        (case gitRun_result host args (Some (commit_env host (given_options options))) of
           Inr commitSuccessMessage \<Rightarrow>
             SetStatusBarMessage
               (''Git finished: '' @ replaceLineSplitter host (stdout commitSuccessMessage))
               (Some (StatusMessageDisplayTimeout host))
         | Inl e \<Rightarrow>
             SetStatusBarMessage ''Commit canceled.'' (Some (StatusMessageDisplayTimeout host)))]"
  have tr: "fst (runCommitLikeCommand host repository args options)
          = ?before @ fst (finally_block host True)"
    using shown by (simp add: runCommitLikeCommand_trace)
  have b1: "ShowDiffSection \<in> set ?before" by simp
  have b2: "AwaitStagedEditorTask \<notin> set ?before" by (simp split: sum.splits)
  have b3: "?close \<notin> set ?before" by (simp split: sum.splits)
  have b0: "count_list ?before ?close = 0"
    using b3 by (simp only: count_list_0_iff not_False_eq_True)
  obtain cl where cl: "fst (finally_block host True) = AwaitStagedEditorTask # cl"
    using finally_block_trace [of host True] by blast
  from tr cl b1 b2 b3 have shape: "\<exists>before cleanup.
        fst (runCommitLikeCommand host repository args options)
          = before @ AwaitStagedEditorTask # cleanup
        \<and> ShowDiffSection \<in> set before
        \<and> AwaitStagedEditorTask \<notin> set before
        \<and> ?close \<notin> set before"
    by (metis (no_types, lifting))
  have cnt: "count_list (fst (runCommitLikeCommand host repository args options)) ?close
      = count_list (fst (finally_block host True)) ?close"
  proof -
    have "count_list (?before @ fst (finally_block host True)) ?close
        = count_list ?before ?close + count_list (fst (finally_block host True)) ?close"
      by (rule count_list_append)
    also have "\<dots> = count_list (fst (finally_block host True)) ?close"
      by (simp only: b0 add_0)
    finally show ?thesis by (simp only: tr)
  qed
  have resolved: "\<forall>editor. stagedEditorTask_result host = Inr editor \<longrightarrow>
           count_list (fst (runCommitLikeCommand host repository args options)) ?close
             \<le> length (filter (\<lambda>v. document_uri v = document_uri editor)
                         (visibleTextEditors host))
           \<and> (snd (closeStagedEditor host editor (visibleTextEditors host) 0) = None \<longrightarrow>
                count_list (fst (runCommitLikeCommand host repository args options)) ?close
                  = length (filter (\<lambda>v. document_uri v = document_uri editor)
                              (visibleTextEditors host)))"
  proof (intro allI impI)
    fix editor
    assume r: "stagedEditorTask_result host = Inr editor"
    have c: "count_list (fst (runCommitLikeCommand host repository args options)) ?close
      = count_list (fst (closeStagedEditor host editor (visibleTextEditors host) 0)) ?close"
      by (simp add: cnt finally_block_resolved [OF r])
    show "count_list (fst (runCommitLikeCommand host repository args options)) ?close
             \<le> length (filter (\<lambda>v. document_uri v = document_uri editor)
                         (visibleTextEditors host))
           \<and> (snd (closeStagedEditor host editor (visibleTextEditors host) 0) = None \<longrightarrow>
                count_list (fst (runCommitLikeCommand host repository args options)) ?close
                  = length (filter (\<lambda>v. document_uri v = document_uri editor)
                              (visibleTextEditors host)))"
      unfolding c using closeStagedEditor_count_le closeStagedEditor_count by blast
  qed
  have rejected: "\<forall>e. stagedEditorTask_result host = Inl e \<longrightarrow>
           count_list (fst (runCommitLikeCommand host repository args options)) ?close = 0"
    by (simp add: cnt finally_block_rejected)
  from shape resolved rejected show "(\<exists>before cleanup.
        fst (runCommitLikeCommand host repository args options)
          = before @ AwaitStagedEditorTask # cleanup
        \<and> ShowDiffSection \<in> set before
        \<and> AwaitStagedEditorTask \<notin> set before
        \<and> ?close \<notin> set before)
     \<and> (\<forall>editor. stagedEditorTask_result host = Inr editor \<longrightarrow>
           count_list (fst (runCommitLikeCommand host repository args options)) ?close
             \<le> length (filter (\<lambda>v. document_uri v = document_uri editor)
                         (visibleTextEditors host))
           \<and> (snd (closeStagedEditor host editor (visibleTextEditors host) 0) = None \<longrightarrow>
                count_list (fst (runCommitLikeCommand host repository args options)) ?close
                  = length (filter (\<lambda>v. document_uri v = document_uri editor)
                              (visibleTextEditors host))))
     \<and> (\<forall>e. stagedEditorTask_result host = Inl e \<longrightarrow>
           count_list (fst (runCommitLikeCommand host repository args options)) ?close = 0)"
    by blast
qed

theorem runCommitLikeCommand_closes_visible_previews_witness:
  "truthy_flag (opt_showStagedChanges (given_options None))
   \<and> stagedEditorTask_result (canceling_host [\<lparr>document_uri = 2\<rparr>, \<lparr>document_uri = 1\<rparr>])
     = Inr \<lparr>document_uri = 1\<rparr>
   \<and> snd (closeStagedEditor (canceling_host [\<lparr>document_uri = 2\<rparr>, \<lparr>document_uri = 1\<rparr>])
        \<lparr>document_uri = 1\<rparr> [\<lparr>document_uri = 2\<rparr>, \<lparr>document_uri = 1\<rparr>] 0) = None
   \<and> fst (runCommitLikeCommand (canceling_host [\<lparr>document_uri = 2\<rparr>, \<lparr>document_uri = 1\<rparr>])
          main_repository [''commit''] None)
     = [SetStatusBarMessage ''Type C-c C-c to finish, or C-c C-k to cancel'' None,
        ShowDiffSection,
        GitRun [''commit''] (Some [(''GIT_EDITOR'', CHR 0x22 # ''code'' @ CHR 0x22 # '' --wait'')]),
        DisposeInstructionStatus,
        SetStatusBarMessage ''Commit canceled.'' (Some 10000),
        AwaitStagedEditorTask,
        ShowTextDocument 1 2,
        ExecuteCommand ''workbench.action.closeActiveEditor'',
        ExecuteCommand ''workbench.action.navigateLeft'']
   \<and> count_list (fst (runCommitLikeCommand
          (canceling_host [\<lparr>document_uri = 2\<rparr>, \<lparr>document_uri = 1\<rparr>])
          main_repository [''commit''] None))
        (ExecuteCommand ''workbench.action.closeActiveEditor'') = 1
   \<and> stagedEditorTask_result no_preview_host = Inl (Error ''no preview'')
   \<and> count_list (fst (runCommitLikeCommand no_preview_host main_repository [''commit''] None))
        (ExecuteCommand ''workbench.action.closeActiveEditor'') = 0"
  using runCommitLikeCommand_closes_visible_previews
      [of None "canceling_host [\<lparr>document_uri = 2\<rparr>, \<lparr>document_uri = 1\<rparr>]" main_repository
          "[''commit'']"]
    runCommitLikeCommand_closes_visible_previews
      [of None no_preview_host main_repository "[''commit'']"]
  by (simp add: scenario_defs commit_defs)

theorem runCommitLikeCommand_close_count_counterexample:
  "ShowDiffSection \<in> set (fst (runCommitLikeCommand quiet_host main_repository [''commit''] None))
   \<and> snd (runCommitLikeCommand quiet_host main_repository [''commit''] None) = Inr ()
   \<and> count_list (fst (runCommitLikeCommand quiet_host main_repository [''commit''] None))
        (ExecuteCommand ''workbench.action.closeActiveEditor'') = 0
   \<and> ShowDiffSection \<in> set (fst (runCommitLikeCommand
        (canceling_host [\<lparr>document_uri = 1\<rparr>, \<lparr>document_uri = 1\<rparr>]) main_repository [''commit''] None))
   \<and> count_list (fst (runCommitLikeCommand
        (canceling_host [\<lparr>document_uri = 1\<rparr>, \<lparr>document_uri = 1\<rparr>]) main_repository [''commit''] None))
        (ExecuteCommand ''workbench.action.closeActiveEditor'') = 2"
  by (simp add: scenario_defs commit_defs)

text \<open>
  Claim C9, amended. The preview is opened if and only if the caller passes no options
  object at all, or passes one whose \<open>showStagedChanges\<close> is true: the default
  \<^verbatim>\<open>{ showStagedChanges: true }\<close> replaces a missing object, not a missing
  field. \<open>commit\<close> passes no options, so it always opens the preview.
\<close>

theorem runCommitLikeCommand_opens_preview:
  "(ShowDiffSection \<in> set (fst (runCommitLikeCommand host repository args options))
      \<longleftrightarrow> (case options of None \<Rightarrow> True
                          | Some given \<Rightarrow> opt_showStagedChanges given = Some True))
   \<and> ShowDiffSection \<in> set (fst (commit host st commitArgs))"
proof -
  have flag: "truthy_flag (opt_showStagedChanges (given_options opts))
      \<longleftrightarrow> (case opts of None \<Rightarrow> True | Some given \<Rightarrow> opt_showStagedChanges given = Some True)"
    for opts
    by (cases opts; cases "opt_showStagedChanges (given_options opts)")
      (auto simp: given_options_def default_options_def truthy_flag_def)
  have fin: "ShowDiffSection \<notin> set (fst (finally_block h shown))" for h shown
    using finally_block_trace [of h shown] by auto
  have mem: "ShowDiffSection \<in> set (fst (runCommitLikeCommand h r a opts))
      \<longleftrightarrow> truthy_flag (opt_showStagedChanges (given_options opts))" for h r a opts
    by (simp add: runCommitLikeCommand_trace fin split: sum.splits)
  have "ShowDiffSection \<in> set (fst (commit host st commitArgs))"
    unfolding commit_def mem flag by simp
  then show ?thesis unfolding mem flag by simp
qed

theorem runCommitLikeCommand_opens_preview_witness:
  "ShowDiffSection \<in> set (fst (runCommitLikeCommand quiet_host main_repository [''commit''] None))
   \<and> ShowDiffSection \<in> set (fst (commit quiet_host (forced_push_state main_repository) []))"
  using runCommitLikeCommand_opens_preview
      [of quiet_host main_repository "[''commit'']" None "forced_push_state main_repository" "[]"]
  by simp

theorem runCommitLikeCommand_partial_options_counterexample:
  "opt_showStagedChanges propagating \<noteq> Some False
   \<and> ShowDiffSection \<notin> set (fst (runCommitLikeCommand quiet_host main_repository [''commit'']
        (Some propagating)))"
  by (simp add: scenario_defs commit_defs)

end
